theory Spec2Isabelle
  imports Main "HOL-Library.Sublist"
begin

section \<open>The source\<close>

text \<open>
  The repository holds the extension twice: the file \<^verbatim>\<open>src/extension.ts\<close>, and a later
  listing of the same file that follows the text of \<^verbatim>\<open>README.md\<close>. The two listings have
  the same update loop (\<^verbatim>\<open>requestUpdate\<close>, \<^verbatim>\<open>runUpdate\<close>, the loading indicator),
  the same \<^verbatim>\<open>executeJq\<close>, \<^verbatim>\<open>dispose\<close>, \<^verbatim>\<open>updateROption\<close>, \<^verbatim>\<open>escapeHtml\<close> and
  \<^verbatim>\<open>getWorkspaceRelativePath\<close>, and the same handling of the messages \<^verbatim>\<open>setOptions\<close>
  and \<^verbatim>\<open>chooseInput\<close>. The later listing adds to the panel what the earlier one lacks:
  the message \<^verbatim>\<open>openResultDoc\<close>, the copy and open buttons of a result,
  \<^verbatim>\<open>filenameDisplay\<close>, and \<^verbatim>\<open>highlightJson\<close>, through which a result is rendered unless
  \<^verbatim>\<open>-r\<close> is set (the earlier listing renders every body as
  \<^verbatim>\<open><pre>${escapeHtml(content)}</pre>\<close>). Where the listings differ, the definitions
  below follow the later one.
\<close>

section \<open>Strings as the extension uses them\<close>

text \<open>
  The extension is TypeScript; its strings are sequences of UTF-16 code units. A
  \<^typ>\<open>char\<close> stands for a code unit below 256, which covers every character the
  source tests for (the five HTML specials, the flags, the white space that
  \<^verbatim>\<open>trim\<close> removes below 256); code units above 255 are outside this model.
\<close>

definition startsWith :: "string \<Rightarrow> string \<Rightarrow> bool" where
  "startsWith s p = (take (length p) s = p)"

definition endsWith :: "string \<Rightarrow> string \<Rightarrow> bool" where
  "endsWith s p = (length p \<le> length s \<and> drop (length s - length p) s = p)"

fun str_includes :: "string \<Rightarrow> string \<Rightarrow> bool" where
  "str_includes [] p = (p = [])"
| "str_includes (c # cs) p = (startsWith (c # cs) p \<or> str_includes cs p)"

text \<open>\<^verbatim>\<open>xs.join(sep)\<close> on an array of strings.\<close>

fun join :: "string \<Rightarrow> string list \<Rightarrow> string" where
  "join sep [] = []"
| "join sep [x] = x"
| "join sep (x # y # ys) = x @ sep @ join sep (y # ys)"

text \<open>
  \<^verbatim>\<open>String.prototype.trim\<close>: white space and line terminators are removed at both
  ends. Below 256 these are TAB, LF, VT, FF, CR, SPACE and NBSP.
\<close>

definition isWhiteSpace :: "char \<Rightarrow> bool" where
  "isWhiteSpace c = (c \<in> {CHR 0x09, CHR 0x0A, CHR 0x0B, CHR 0x0C, CHR 0x0D, CHR 0x20, CHR 0xA0})"

definition trim :: "string \<Rightarrow> string" where
  "trim s = rev (dropWhile isWhiteSpace (rev (dropWhile isWhiteSpace s)))"

text \<open>
  \<^verbatim>\<open>s.replaceAll(pat, repl)\<close> with a string pattern. Every occurrence, found left to
  right without overlap, is replaced by the expansion of \<open>repl\<close>: in a replacement
  string \<^verbatim>\<open>$$\<close> is a dollar sign, \<^verbatim>\<open>$&\<close> the matched text, \<^verbatim>\<open>$`\<close> the text before the
  match and \<^verbatim>\<open>$'\<close> the text after it; a string pattern has no captures, so every
  other use of the dollar sign is literal.
\<close>

fun getSubstitution :: "string \<Rightarrow> string \<Rightarrow> string \<Rightarrow> string \<Rightarrow> string" where
  "getSubstitution matched preceding following [] = []"
| "getSubstitution matched preceding following [c] = [c]"
| "getSubstitution matched preceding following (c # d # r) =
     (if c = CHR 0x24 \<and> d = CHR 0x24 then CHR 0x24 # getSubstitution matched preceding following r
      else if c = CHR 0x24 \<and> d = CHR 0x26 then matched @ getSubstitution matched preceding following r
      else if c = CHR 0x24 \<and> d = CHR 0x60 then preceding @ getSubstitution matched preceding following r
      else if c = CHR 0x24 \<and> d = CHR 0x27 then following @ getSubstitution matched preceding following r
      else c # getSubstitution matched preceding following (d # r))"

function replaceAll_from :: "string \<Rightarrow> string \<Rightarrow> string \<Rightarrow> string \<Rightarrow> string" where
  "replaceAll_from pat repl preceding s =
     (if pat = [] then
        (case s of
           [] \<Rightarrow> getSubstitution [] preceding [] repl
         | c # cs \<Rightarrow> getSubstitution [] preceding s repl @ c # replaceAll_from pat repl (preceding @ [c]) cs)
      else
        (case s of
           [] \<Rightarrow> []
         | c # cs \<Rightarrow>
             if startsWith s pat
             then getSubstitution pat preceding (drop (length pat) s) repl
                  @ replaceAll_from pat repl (preceding @ pat) (drop (length pat) s)
             else c # replaceAll_from pat repl (preceding @ [c]) cs))"
  by pat_completeness auto
termination
  by (relation "measure (\<lambda>(pat, repl, preceding, s). length s)") auto

definition replaceAll :: "string \<Rightarrow> string \<Rightarrow> string \<Rightarrow> string" where
  "replaceAll s pat repl = replaceAll_from pat repl [] s"

section \<open>The option set and the raw-input policy\<close>

text \<open>
  \<^verbatim>\<open>Array.from(new Set(xs))\<close>: a Set keeps the first occurrence of each element, in
  insertion order.
\<close>

definition array_from_set :: "'a list \<Rightarrow> 'a list" where
  "array_from_set xs = foldl (\<lambda>acc x. if x \<in> set acc then acc else acc @ [x]) [] xs"

definition updateROption :: "string \<Rightarrow> string list \<Rightarrow> string list" where
  "updateROption inputFile options =
     (if \<not> endsWith inputFile ''.json''
      then array_from_set (options @ [''-R''])
      else filter (\<lambda>opt. opt \<noteq> ''-R'') options)"

section \<open>Rendering\<close>

datatype PreviewType = Placeholder | Result | Error

text \<open>The string value of each member of the enum \<^verbatim>\<open>PreviewType\<close>.\<close>

fun PreviewType_value :: "PreviewType \<Rightarrow> string" where
  "PreviewType_value Placeholder = ''placeholder''"
| "PreviewType_value Result = ''result''"
| "PreviewType_value Error = ''error''"

record preview =
  content :: string
  ptype :: PreviewType

text \<open>
  \<^verbatim>\<open>escapeHtml\<close> replaces every match of \<^verbatim>\<open>/[&<>"']/g\<close> by its entry in the table;
  every other character is kept.
\<close>

definition escapeChar :: "char \<Rightarrow> string" where
  \<open>escapeChar c =
     (if c = CHR ''&'' then ''&amp;''
      else if c = CHR ''<'' then ''&lt;''
      else if c = CHR ''>'' then ''&gt;''
      else if c = CHR 0x22 then ''&quot;''
      else if c = CHR 0x27 then ''&#039;''
      else [c])\<close>

definition escapeHtml :: "string \<Rightarrow> string" where
  "escapeHtml text = concat (map escapeChar text)"


subsection \<open>Regular expressions\<close>

text \<open>
  The regular expressions of \<^verbatim>\<open>highlightJson\<close>, with the meaning JavaScript gives them:
  a pattern is matched by backtracking, the alternatives tried in the order of the
  pattern and a quantifier greedy. \<open>Class p\<close> is one character that satisfies \<open>p\<close>,
  \<open>WordBoundary\<close> is \<^verbatim>\<open>\b\<close>. A position in the subject is the character before it
  (none at the start) and the text that follows.
\<close>

datatype regex = Empty | Class "char \<Rightarrow> bool" | Seq regex regex | Alt regex regex
  | Star regex | WordBoundary

type_synonym cursor = "char option \<times> string"

text \<open>\<^verbatim>\<open>\d\<close> and \<^verbatim>\<open>\w\<close>.\<close>

definition isDigit :: "char \<Rightarrow> bool" where
  "isDigit c \<longleftrightarrow> c \<in> set ''0123456789''"

definition isWordChar :: "char \<Rightarrow> bool" where
  "isWordChar c \<longleftrightarrow>
     c \<in> set ''abcdefghijklmnopqrstuvwxyzABCDEFGHIJKLMNOPQRSTUVWXYZ0123456789_''"

definition atWordBoundary :: "cursor \<Rightarrow> bool" where
  "atWordBoundary c \<longleftrightarrow>
     (case fst c of None \<Rightarrow> False | Some a \<Rightarrow> isWordChar a)
       \<noteq> (case snd c of [] \<Rightarrow> False | b # bs \<Rightarrow> isWordChar b)"

text \<open>
  \<open>ends r c\<close> lists the positions at which a match of \<open>r\<close> that starts at \<open>c\<close> can end,
  in the order in which backtracking finds them: the first is the match. An iteration
  of a star that matches the empty text is not taken.
\<close>

function ends :: "regex \<Rightarrow> cursor \<Rightarrow> cursor list" where
  "ends Empty c = [c]"
| "ends (Class p) c = (case snd c of [] \<Rightarrow> [] | x # xs \<Rightarrow> if p x then [(Some x, xs)] else [])"
| "ends (Seq a b) c = concat (map (ends b) (ends a c))"
| "ends (Alt a b) c = ends a c @ ends b c"
| "ends (Star a) c =
     concat (map (ends (Star a)) (filter (\<lambda>d. length (snd d) < length (snd c)) (ends a c))) @ [c]"
| "ends WordBoundary c = (if atWordBoundary c then [c] else [])"
  by pat_completeness auto
termination
  by (relation "inv_image (less_than <*lex*> less_than) (\<lambda>(r, c). (size r, length (snd c)))") auto

text \<open>
  \<^verbatim>\<open>s.replace(re, f)\<close> with a global pattern and a function: the matches are found left
  to right, each search starting where the last match ended (one character further
  after an empty match); every match is replaced by what \<open>f\<close> returns for its text.
\<close>

function replace_from :: "regex \<Rightarrow> (string \<Rightarrow> string) \<Rightarrow> cursor \<Rightarrow> string" where
  "replace_from r f c =
     (case ends r c of
        d # ds \<Rightarrow>
          if length (snd d) < length (snd c)
          then f (take (length (snd c) - length (snd d)) (snd c)) @ replace_from r f d
          else (case snd c of
                  [] \<Rightarrow> f []
                | x # xs \<Rightarrow> f [] @ x # replace_from r f (Some x, xs))
      | [] \<Rightarrow>
          (case snd c of
             [] \<Rightarrow> []
           | x # xs \<Rightarrow> x # replace_from r f (Some x, xs)))"
  by pat_completeness auto
termination
  by (relation "measure (\<lambda>(r, f, c). length (snd c))") auto

definition replace_regex :: "string \<Rightarrow> regex \<Rightarrow> (string \<Rightarrow> string) \<Rightarrow> string" where
  "replace_regex s r f = replace_from r f (None, s)"

text \<open>\<^verbatim>\<open>r?\<close>, \<^verbatim>\<open>r+\<close> and a literal text.\<close>

definition Opt :: "regex \<Rightarrow> regex" where
  "Opt a = Alt a Empty"

definition Plus :: "regex \<Rightarrow> regex" where
  "Plus a = Seq a (Star a)"

fun Lit :: "string \<Rightarrow> regex" where
  "Lit [] = Empty"
| "Lit (x # xs) = Seq (Class (\<lambda>c. c = x)) (Lit xs)"

text \<open>
  \<^verbatim>\<open>json.split(/\r?\n/)\<close>: the text is cut at every line feed, and a carriage return
  just before it belongs to the separator.
\<close>

function split_lines :: "string \<Rightarrow> string list" where
  "split_lines [] = [[]]"
| "split_lines (c # cs) =
     (if c = CHR 0x0A then [] # split_lines cs
      else if c = CHR 0x0D \<and> take 1 cs = [CHR 0x0A] then [] # split_lines (drop 1 cs)
      else (case split_lines cs of
              [] \<Rightarrow> [[c]]
            | l # ls \<Rightarrow> (c # l) # ls))"
  by pat_completeness auto
termination
  by (relation "measure length") auto

subsection \<open>The tinting of a result\<close>

text \<open>
  The five patterns of \<^verbatim>\<open>highlightJson\<close>. \<open>quoted\<close> is \<^verbatim>\<open>"(?:\\.|[^"\\])*"\<close>, which
  \<^verbatim>\<open>stringRE\<close> and \<^verbatim>\<open>keyRE\<close> share; the dot matches every character but a line
  terminator. The group of \<^verbatim>\<open>keyRE\<close> is the whole pattern but its last character, the
  colon, so \<^verbatim>\<open>g1\<close> is the match without its last character.
\<close>

definition quoted :: regex where
  "quoted =
     Seq (Class (\<lambda>c. c = CHR 0x22))
       (Seq (Star (Alt (Seq (Class (\<lambda>c. c = CHR 0x5C))
                            (Class (\<lambda>c. c \<noteq> CHR 0x0A \<and> c \<noteq> CHR 0x0D)))
                       (Class (\<lambda>c. c \<noteq> CHR 0x22 \<and> c \<noteq> CHR 0x5C))))
            (Class (\<lambda>c. c = CHR 0x22)))"

definition stringRE :: regex where
  "stringRE = quoted"

definition numberRE :: regex where
  "numberRE =
     Seq (Opt (Lit ''-''))
       (Seq WordBoundary
         (Seq (Plus (Class isDigit))
           (Seq (Opt (Seq (Lit ''.'') (Plus (Class isDigit))))
             (Seq (Opt (Seq (Class (\<lambda>c. c = CHR ''e'' \<or> c = CHR ''E''))
                         (Seq (Opt (Class (\<lambda>c. c = CHR ''+'' \<or> c = CHR ''-'')))
                              (Plus (Class isDigit)))))
                  WordBoundary))))"

definition booleanRE :: regex where
  "booleanRE = Seq WordBoundary (Seq (Alt (Lit ''true'') (Lit ''false'')) WordBoundary)"

definition nullRE :: regex where
  "nullRE = Seq WordBoundary (Seq (Lit ''null'') WordBoundary)"

definition keyRE :: regex where
  "keyRE = Seq (Seq quoted (Star (Class isWhiteSpace))) (Lit '':'')"

definition highlightLine :: "string \<Rightarrow> string" where
  \<open>highlightLine line =
     (let line = replace_regex line keyRE
                   (\<lambda>m. ''<span class="hljs-attr">'' @ escapeHtml (butlast m) @ ''</span>:'');
          line = replace_regex line stringRE
                   (\<lambda>m. if str_includes m ''hljs-attr'' then m
                        else ''<span class="hljs-string">'' @ escapeHtml m @ ''</span>'');
          line = replace_regex line numberRE (\<lambda>m. ''<span class="hljs-number">'' @ m @ ''</span>'');
          line = replace_regex line booleanRE (\<lambda>m. ''<span class="hljs-boolean">'' @ m @ ''</span>'');
          line = replace_regex line nullRE (\<lambda>m. ''<span class="hljs-null">'' @ m @ ''</span>'')
      in line)\<close>

definition highlightJson :: "string \<Rightarrow> string" where
  "highlightJson json = join ''\<newline>'' (map highlightLine (split_lines json))"


definition allOptions :: "(string \<times> string) list" where
  "allOptions =
     [(''-c'', ''-c (Compact output)''),
      (''-n'', ''-n (Null input)''),
      (''-R'', ''-R (Raw input)''),
      (''-r'', ''-r (Raw output)''),
      (''-s'', ''-s (Slurp: read into array)''),
      (''-S'', ''-S (Sort keys)'')]"

definition chip :: "string \<times> string \<Rightarrow> string" where
  \<open>chip opt =
     ''<span class="jq-chip" data-value="'' @ fst opt @ ''">'' @ snd opt
     @ ''<span class="jq-chip-x" data-value="'' @ fst opt @ ''">&times;</span></span>''\<close>

definition no_chips :: string where
  \<open>no_chips = ''<span style="opacity:0.6;">(none)</span>''\<close>

definition dropdown_item :: "string list \<Rightarrow> string \<times> string \<Rightarrow> string" where
  \<open>dropdown_item options opt =
     ''<div class="jq-dropdown-item'' @ (if fst opt \<in> set options then '' selected'' else [])
     @ ''" data-value="'' @ fst opt @ ''">'' @ snd opt @ ''</div>''\<close>

definition options_open :: string where
  \<open>options_open =
   ''\<newline>'' @
   ''            <div class="jq-options-block">\<newline>'' @
   ''                <div class="jq-options-row-flex">\<newline>'' @
   ''                    <span class="jq-options-label">Filter Options:</span>\<newline>'' @
   ''                    <span class="jq-chips-row-flex" id="jq-chips-row">''\<close>

definition options_list :: string where
  \<open>options_list =
   ''<button id="jq-dropdown-btn" class="jq-dropdown-btn" title="Edit options">&#x25BC;</button></span>\<newline>'' @
   ''                </div>\<newline>'' @
   ''                <div id="jq-dropdown-list" class="jq-dropdown-list" style="display:none;">\<newline>'' @
   ''                    ''\<close>

definition options_close :: string where
  \<open>options_close =
   ''\<newline>'' @
   ''                </div>\<newline>'' @
   ''            </div>\<newline>'' @
   ''        ''\<close>

definition renderOptionSelection :: "string list \<Rightarrow> string" where
  "renderOptionSelection options =
     (let selectedOptions = filter (\<lambda>opt. fst opt \<in> set options) allOptions;
          chipsHtml = (if selectedOptions \<noteq> [] then join '' '' (map chip selectedOptions)
                       else no_chips)
      in options_open @ chipsHtml @ options_list
         @ join [] (map (dropdown_item options) allOptions) @ options_close)"

section \<open>The host: workspace, file system, library functions\<close>

text \<open>
  What the extension reads from Node and from the editor is a parameter of the model:
  the workspace folders, the open documents, the disk, the functions of \<^verbatim>\<open>path\<close>, the
  temporary directory and the random bytes. \<open>fs_fault\<close> tells which file operations
  the environment refuses (permissions, a full disk), with the message of the error
  thrown. \<open>html_setter_throws\<close> says whether the host throws when the markup of a
  disposed panel is assigned; the source does not tell, so both hosts are covered.
  \<open>uri_fsPath p\<close> is \<^verbatim>\<open>vscode.Uri.file(p).fsPath\<close>, \<open>panelViewColumn\<close> is
  \<^verbatim>\<open>panel.viewColumn\<close>, the column in which the editor shows the panel, and \<open>shown\<close>
  lists the documents that the extension made with \<^verbatim>\<open>openTextDocument\<close> and showed
  with \<^verbatim>\<open>showTextDocument\<close>, each with the column it asked for.
\<close>

datatype fs_op = OpRead | OpWrite | OpUnlink

text \<open>The argument of \<^verbatim>\<open>openTextDocument\<close>; \<open>None\<close> is \<^verbatim>\<open>undefined\<close>.\<close>

record text_document =
  doc_content :: string
  doc_language :: "string option"

record world =
  workspaceFolders :: "string list option"
  path_join :: "string \<Rightarrow> string \<Rightarrow> string"
  path_basename :: "string \<Rightarrow> string"
  path_relative :: "string \<Rightarrow> string \<Rightarrow> string"
  tmpdir :: string
  randomHex :: "nat \<Rightarrow> string"
  rand_count :: nat
  textDocuments :: "(string \<times> string) list"
  files :: "string \<rightharpoonup> string"
  fs_fault :: "fs_op \<Rightarrow> string \<Rightarrow> string option"
  filterFileName :: string
  filterText :: string
  html_setter_throws :: bool
  path_dirname :: "string \<Rightarrow> string"
  path_sep :: string
  uri_fsPath :: "string \<Rightarrow> string"
  panelViewColumn :: "int option"
  shown :: "(text_document \<times> int) list"

text \<open>
  A thrown JavaScript error, with the fields the source reads: \<^verbatim>\<open>stdout\<close> and
  \<^verbatim>\<open>stderr\<close> are set on the error of a failed child process, not on a file error.
\<close>

record js_error =
  err_stdout :: "string option"
  err_stderr :: "string option"
  err_message :: string

definition fs_error :: "string \<Rightarrow> js_error" where
  "fs_error m = \<lparr>err_stdout = None, err_stderr = None, err_message = m\<rparr>"

definition enoent :: "string \<Rightarrow> string \<Rightarrow> string" where
  "enoent syscall p =
     ''ENOENT: no such file or directory, '' @ syscall @ '' '' @ [CHR 0x27] @ p @ [CHR 0x27]"

definition readFileSync :: "world \<Rightarrow> string \<Rightarrow> js_error + string" where
  "readFileSync w p =
     (case fs_fault w OpRead p of
        Some m \<Rightarrow> Inl (fs_error m)
      | None \<Rightarrow> (case files w p of
                   None \<Rightarrow> Inl (fs_error (enoent ''open'' p))
                 | Some c \<Rightarrow> Inr c))"

definition writeFileSync :: "world \<Rightarrow> string \<Rightarrow> string \<Rightarrow> js_error + world" where
  "writeFileSync w p c =
     (case fs_fault w OpWrite p of
        Some m \<Rightarrow> Inl (fs_error m)
      | None \<Rightarrow> Inr (w\<lparr>files := (files w)(p \<mapsto> c)\<rparr>))"

definition unlinkSync :: "world \<Rightarrow> string \<Rightarrow> js_error + world" where
  "unlinkSync w p =
     (case fs_fault w OpUnlink p of
        Some m \<Rightarrow> Inl (fs_error m)
      | None \<Rightarrow> (case files w p of
                   None \<Rightarrow> Inl (fs_error (enoent ''unlink'' p))
                 | Some c \<Rightarrow> Inr (w\<lparr>files := (files w)(p := None)\<rparr>)))"

definition getWorkspaceRelativePath :: "world \<Rightarrow> string \<Rightarrow> string" where
  "getWorkspaceRelativePath w filePath =
     (case workspaceFolders w of
        None \<Rightarrow> filePath
      | Some wsFolders \<Rightarrow>
          (case find (\<lambda>wsPath. startsWith filePath wsPath) wsFolders of
             Some wsPath \<Rightarrow> path_relative w wsPath filePath
           | None \<Rightarrow> filePath))"

text \<open>
  \<^verbatim>\<open>filenameDisplay\<close>, applied to the \<^verbatim>\<open>fsPath\<close> of its argument: the name of the file
  and the directory shown beside it. An empty folder path is falsy.
\<close>

definition filenameDisplay :: "world \<Rightarrow> string \<Rightarrow> string \<times> string" where
  "filenameDisplay w fsPath =
     (let name = path_basename w fsPath;
          wsFolders = (case workspaceFolders w of None \<Rightarrow> [] | Some fs \<Rightarrow> fs);
          wsFolder = find (\<lambda>ws. startsWith fsPath (ws @ path_sep w)) wsFolders
      in (name,
          case wsFolder of
            None \<Rightarrow> path_dirname w fsPath
          | Some ws \<Rightarrow>
              if ws \<noteq> [] then
                (let rel = path_relative w ws fsPath;
                     dir = path_dirname w rel
                 in if dir = ''.'' then [] else dir)
              else path_dirname w fsPath))"

section \<open>The session\<close>

record panel =
  html :: string
  posted :: "bool list"
  disposed :: bool

datatype disposable = JsonWatcher | JsonChangeDisposable | QueryChangeDisposable

text \<open>
  An invocation that waits for the evaluator: the two temporary files it wrote and the
  command line it started.
\<close>

record pending =
  p_tmpFile :: string
  p_tmpFilter :: string
  p_command :: string

text \<open>
  The fields of \<^verbatim>\<open>JqPreviewSession\<close>. \<open>loadingIndicatorTimeout\<close> tells whether the
  timer is set. Three more fields observe the run: \<open>runs\<close> counts the calls of
  \<^verbatim>\<open>runUpdate\<close>, \<open>inflight\<close> lists the calls suspended at their \<^verbatim>\<open>await\<close>, and
  \<open>escaped\<close> lists the exceptions no handler caught. \<open>registered\<close> tells whether the
  session is still in the registry of \<^verbatim>\<open>activate\<close>.
\<close>

record session =
  needUpdate :: bool
  updating :: bool
  previewState :: preview
  lastLoadingState :: bool
  loadingIndicatorTimeout :: bool
  disposables :: "disposable list"
  panel :: panel
  inputFile :: string
  options :: "string list"
  registered :: bool
  runs :: nat
  inflight :: "pending list"
  escaped :: "string list"

definition no_input_html :: string where
  \<open>no_input_html = ''<p style="color: orange;">No input file selected.</p>''\<close>

definition input_deleted_html :: string where
  \<open>input_deleted_html = ''<p style="color: orange;">Input file was deleted.</p>''\<close>

definition copyIcon :: string where
  \<open>copyIcon =
   ''\<newline>'' @
   ''            <svg xmlns="http://www.w3.org/2000/svg" width="100%" height="100%" viewBox="0 0 24 24"\<newline>'' @
   ''                preserveAspectRatio="xMidYMid meet" fill="currentColor">\<newline>'' @
   ''                <path d="M0 0h24v24H0V0z" fill="none" />\<newline>'' @
   ''                <path d="M16 1H4c-1.1 0-2 .9-2 2v14h2V3h12V1zm3 4H8c-1.1 0-2 .9-2 2v14c0 1.1.9 2 2 2h11c1.1 0 2-.9 2-2V7c0-1.1-.9-2-2-2zm0 16H8V7h11v14z" />\<newline>'' @
   ''            </svg>\<newline>'' @
   ''        ''\<close>

definition openIcon :: string where
  \<open>openIcon =
   ''\<newline>'' @
   ''            <svg xmlns="http://www.w3.org/2000/svg" width="100%" height="100%" viewBox="0 0 24 24"\<newline>'' @
   ''                preserveAspectRatio="xMidYMid meet" fill="currentColor">\<newline>'' @
   ''                <path d="M0 0h24v24H0V0z" fill="none" />\<newline>'' @
   ''                <path d="M13 11h-2v3H8v2h3v3h2v-3h3v-2h-3zm1-9H6c-1.1 0-2 .9-2 2v16c0 1.1.89 2 1.99 2H18c1.1 0 2-.9 2-2V8l-6-6zm4 18H6V4h7v5h5v11z" />\<newline>'' @
   ''            </svg>\<newline>'' @
   ''        ''\<close>

definition preview_open :: string where
  \<open>preview_open =
   ''\<newline>'' @
   ''            <div class="json-file">\<newline>'' @
   ''                <div class="json-file-header">\<newline>'' @
   ''                    <div class="jq-input-row"><span class="info-label">Input File:</span><span class="jq-input-file">''\<close>

definition preview_choose :: string where
  \<open>preview_choose =
   ''</span><button class="jq-input-choose" id="jq-input-choose" title="Change input file">&#8230;</button></div>\<newline>'' @
   ''                    ''\<close>

definition preview_content_open :: string where
  \<open>preview_content_open =
   ''\<newline>'' @
   ''                </div>\<newline>'' @
   ''                <div class="json-content">\<newline>'' @
   ''                    ''\<close>

definition actions_open :: string where
  \<open>actions_open =
   ''\<newline>'' @
   ''                    <div class="jq-result-actions" id="jq-result-actions">\<newline>'' @
   ''                        <button class="jq-action-btn" id="jq-copy-btn" title="Copy to clipboard" aria-label="Copy">''\<close>

definition actions_between :: string where
  \<open>actions_between =
   ''</button>\<newline>'' @
   ''                        <button class="jq-action-btn" id="jq-open-btn" title="Open in new document" aria-label="Open">''\<close>

definition actions_close :: string where
  \<open>actions_close =
   ''</button>\<newline>'' @
   ''                    </div>\<newline>'' @
   ''                    ''\<close>

definition preview_pane_open :: string where
  \<open>preview_pane_open =
   ''\<newline>'' @
   ''                    <div class="''\<close>

definition preview_pane_class :: string where
  \<open>preview_pane_class =
   '' jq-result-pane" id="jq-result-pane">\<newline>'' @
   ''                        ''\<close>

definition preview_close :: string where
  \<open>preview_close =
   ''\<newline>'' @
   ''                    </div>\<newline>'' @
   ''                </div>\<newline>'' @
   ''            </div>\<newline>'' @
   ''        ''\<close>

definition page_head :: string where
  \<open>page_head =
   ''<!DOCTYPE html>\<newline>'' @
   ''        <html lang="en">\<newline>'' @
   ''        <head>\<newline>'' @
   ''            <meta charset="UTF-8">\<newline>'' @
   ''            <meta name="viewport" content="width=device-width, initial-scale=1.0">\<newline>'' @
   ''            <title>jq Preview</title>\<newline>'' @
   ''            <style>\<newline>'' @
   ''                body { font-family: var(--vscode-font-family); font-size: var(--vscode-font-size); color: var(--vscode-foreground); padding: 8px; }\<newline>'' @
   ''                .jq-activity-indicator {\<newline>'' @
   ''                    display: none; position: fixed; left: 0; right: 0; top: 0; height: 2px; z-index: 1000;\<newline>'' @
   ''                    background: transparent; overflow: hidden; opacity: 0; transition: opacity 0.2s;\<newline>'' @
   ''                }\<newline>'' @
   ''                .jq-activity-indicator.active { display: block; opacity: 1; }\<newline>'' @
   ''                .jq-activity-bar-track {\<newline>'' @
   ''                    position: absolute; left: 0; top: 0; height: 100%; width: calc(100% + 160px);\<newline>'' @
   ''                    will-change: transform; display: flex;\<newline>'' @
   ''                }\<newline>'' @
   ''                .jq-activity-bar {\<newline>'' @
   ''                    position: absolute; top: 0; width: 160px; height: 100%;\<newline>'' @
   ''                    background: linear-gradient(90deg, transparent 0%, #7195EA 70%, transparent 100%);\<newline>'' @
   ''                }\<newline>'' @
   ''                .jq-activity-bar:first-child { left: 0; }\<newline>'' @
   ''                .jq-activity-bar:last-child { left: calc(100% - 160px); }\<newline>'' @
   ''                @keyframes jq-activity-bar-move {\<newline>'' @
   ''                    0% { transform: translateX(calc(160px - 100%)); }\<newline>'' @
   ''                    100% { transform: translateX(0%); }\<newline>'' @
   ''                }\<newline>'' @
   ''                .jq-activity-indicator.active .jq-activity-bar-track {\<newline>'' @
   ''                    animation: jq-activity-bar-move 1.2s linear infinite;\<newline>'' @
   ''                }\<newline>'' @
   ''                .info-label { font-weight: 500; margin-right: 0.5em; white-space: nowrap; }\<newline>'' @
   ''                .jq-input-row { display: flex; align-items: center; margin-bottom: 2px; }\<newline>'' @
   ''                .jq-input-file { margin-right: 0.5em; }\<newline>'' @
   ''                .jq-input-name { font-size: 1em; }\<newline>'' @
   ''                .jq-input-desc { font-size: 0.9em; opacity: 0.7; margin-left: 0.3em; }\<newline>'' @
   ''                .jq-input-choose { background: none; border: none; color: var(--vscode-button-foreground); font-size: 1em; cursor: pointer; margin-left: 0.2em; padding: 0 4px; border-radius: 3px; }\<newline>'' @
   ''                .jq-input-choose:hover { background: var(--vscode-button-hoverBackground); }\<newline>'' @
   ''                .jq-options-block { margin-top: 4px; }\<newline>'' @
   ''                .jq-options-row-flex { display: flex; align-items: flex-start; }\<newline>'' @
   ''                .jq-options-label { font-weight: 500; margin-right: 0.5em; white-space: nowrap; }\<newline>'' @
   ''                .jq-chips-row-flex { display: flex; flex-wrap: wrap; align-items: center; gap: 4px; flex: 1 1 0%; min-width: 0; }\<newline>'' @
   ''                .jq-chip { display: inline-flex; align-items: center; background: var(--vscode-button-secondaryBackground, #2a2d2e); color: var(--vscode-button-secondaryForeground, #fff); border-radius: 16px; padding: 2px 10px; font-size: 90%; margin-right: 2px; margin-bottom: 2px; }\<newline>'' @
   ''                .jq-chip-x { margin-left: 6px; cursor: pointer; font-weight: bold; color: var(--vscode-button-secondaryForeground, #fff); }\<newline>'' @
   ''                .jq-chip-x:hover { color: var(--vscode-errorForeground); }\<newline>'' @
   ''                .jq-dropdown-btn { background: none; border: none; color: var(--vscode-foreground); font-size: 1em; margin-left: 4px; cursor: pointer; }\<newline>'' @
   ''                .jq-dropdown-list { position: absolute; z-index: 10; background: var(--vscode-editorWidget-background); color: var(--vscode-editorWidget-foreground); border: 1px solid var(--vscode-input-border); border-radius: 4px; box-shadow: 0 2px 8px rgba(0,0,0,0.15); margin-top: 2px; min-width: 220px; }\<newline>'' @
   ''                .jq-dropdown-item { padding: 6px 12px; cursor: pointer; }\<newline>'' @
   ''                .jq-dropdown-item.selected, .jq-dropdown-item:hover { background: var(--vscode-list-activeSelectionBackground); color: var(--vscode-list-activeSelectionForeground); }\<newline>'' @
   ''                .json-file { margin-bottom: 24px; border: 1px solid var(--vscode-panel-border); border-radius: 4px; overflow: hidden; }\<newline>'' @
   ''                .json-file-header { background-color: var(--vscode-editorGroupHeader-tabsBackground); padding: 8px 12px; font-weight: normal; border-bottom: 1px solid var(--vscode-panel-border); }\<newline>'' @
   ''                .json-content { padding: 12px; position: relative; }\<newline>'' @
   ''                .error { color: var(--vscode-errorForeground); background-color: var(--vscode-inputValidation-errorBackground); border: 1px solid var(--vscode-inputValidation-errorBorder); padding: 8px; border-radius: 4px; margin: 8px 0; }\<newline>'' @
   ''                .placeholder { color: var(--vscode-descriptionForeground); background: none; border: none; padding: 8px; border-radius: 4px; margin: 8px 0; font-style: italic; }\<newline>'' @
   ''                .result { border: 1px solid var(--vscode-input-border); border-radius: 4px; overflow-x: auto; }\<newline>'' @
   ''                pre { margin: 0; white-space: pre-wrap; word-wrap: break-word; }\<newline>'' @
   ''                .jq-json-output { background: none; color: #d4d4d4; }\<newline>'' @
   ''                .hljs-attr { color: #593CE2; }\<newline>'' @
   ''                .hljs-string { color: #66C147; }\<newline>'' @
   ''                .hljs-number { }\<newline>'' @
   ''                .hljs-null { opacity: 0.6; font-style: italic; }\<newline>'' @
   ''                .hljs-boolean { color: #46B4B2; font-style: italic; }\<newline>'' @
   ''                .jq-result-actions { opacity: 0; transition: opacity 0.2s; position: absolute; top: 12px; right: 12px; z-index: 2; gap: 0; background: var(--vscode-editorWidget-background, #23272e); border: 1px solid var(--vscode-input-border); border-radius: 8px; box-shadow: 0 2px 8px rgba(0,0,0,0.08); display: flex; flex-direction: row; }\<newline>'' @
   ''                .jq-result-actions.visible { opacity: 0.3; }\<newline>'' @
   ''                .jq-result-actions.opaque { opacity: 1; }\<newline>'' @
   ''                .jq-action-btn { background: none; height: 32px; color: var(--vscode-foreground); border: none; border-radius: 0; padding: 6px; margin: 0; cursor: pointer; font-size: 1em; transition: background 0.2s, opacity 0.2s; outline: none; display: flex; align-items: center; }\<newline>'' @
   ''                .jq-action-btn:first-child { border-top-left-radius: 6px; border-bottom-left-radius: 6px; }\<newline>'' @
   ''                .jq-action-btn:last-child { border-top-right-radius: 6px; border-bottom-right-radius: 6px; }\<newline>'' @
   ''                .jq-action-btn:hover, .jq-action-btn:focus { background: var(--vscode-button-hoverBackground); opacity: 1; }\<newline>'' @
   ''                .jq-result-pane { position: relative; }\<newline>'' @
   ''                .jq-copied-tooltip { position: absolute; top: -28px; left: 50%; transform: translateX(-50%); background: var(--vscode-editorInfo-foreground, #4caf50); color: #fff; padding: 2px 10px; border-radius: 6px; font-size: 0.95em; pointer-events: none; opacity: 0.95; z-index: 10; box-shadow: 0 2px 8px rgba(0,0,0,0.10); white-space: nowrap; }\<newline>'' @
   ''            </style>\<newline>'' @
   ''        </head>\<newline>'' @
   ''        <body>\<newline>'' @
   ''            <div class="jq-activity-indicator" id="jq-activity-indicator">\<newline>'' @
   ''                <div class="jq-activity-bar-track">\<newline>'' @
   ''                    <div class="jq-activity-bar"></div>\<newline>'' @
   ''                    <div class="jq-activity-bar"></div>\<newline>'' @
   ''                </div>\<newline>'' @
   ''            </div>\<newline>'' @
   ''            ''\<close>

definition page_tail :: string where
  \<open>page_tail =
   ''\<newline>'' @
   ''            <script>\<newline>'' @
   ''            const vscode = window.acquireVsCodeApi();\<newline>'' @
   ''            document.getElementById('jq-input-choose').addEventListener('click', () => {\<newline>'' @
   ''                vscode.postMessage({ type: 'chooseInput' });\<newline>'' @
   ''            });\<newline>'' @
   ''\<newline>'' @
   ''            // Show/hide result action buttons on hover using opacity changes\<newline>'' @
   ''            const resultPane = document.getElementById('jq-result-pane');\<newline>'' @
   ''            const actions = document.getElementById('jq-result-actions');\<newline>'' @
   ''            if (actions) {\<newline>'' @
   ''                resultPane.addEventListener('mouseenter', () => { actions.classList.add('visible'); });\<newline>'' @
   ''                resultPane.addEventListener('mouseleave', () => {\<newline>'' @
   ''                    actions.classList.remove('visible');\<newline>'' @
   ''                    actions.classList.remove('opaque');\<newline>'' @
   ''                });\<newline>'' @
   ''                actions.addEventListener('mouseenter', () => { actions.classList.add('opaque'); });\<newline>'' @
   ''                actions.addEventListener('mouseleave', () => { actions.classList.remove('opaque'); });\<newline>'' @
   ''\<newline>'' @
   ''                // Use event delegation for action buttons\<newline>'' @
   ''                actions.addEventListener('click', (event) => {\<newline>'' @
   ''                    const target = event.target.closest('button');\<newline>'' @
   ''                    if (!target) return;\<newline>'' @
   ''                    event.preventDefault(); // Prevent default button behavior\<newline>'' @
   ''                    target.blur(); // Remove focus from button after click\<newline>'' @
   ''\<newline>'' @
   ''                    const text = resultPane.innerText;\<newline>'' @
   ''                    if (target.id === 'jq-copy-btn') {\<newline>'' @
   ''                        navigator.clipboard.writeText(text).then(() => {\<newline>'' @
   ''                            let tooltip = document.createElement('span');\<newline>'' @
   ''                            tooltip.className = 'jq-copied-tooltip';\<newline>'' @
   ''                            tooltip.textContent = 'Copied!';\<newline>'' @
   ''                            target.appendChild(tooltip);\<newline>'' @
   ''                            setTimeout(() => {\<newline>'' @
   ''                                if (tooltip.parentNode) tooltip.parentNode.removeChild(tooltip);\<newline>'' @
   ''                            }, 900);\<newline>'' @
   ''                        });\<newline>'' @
   ''                    } else if (target.id === 'jq-open-btn') {\<newline>'' @
   ''                        vscode.postMessage({ type: 'openResultDoc', content: text });\<newline>'' @
   ''                    }\<newline>'' @
   ''                });\<newline>'' @
   ''            }\<newline>'' @
   ''\<newline>'' @
   ''            // Handle dropdown for options\<newline>'' @
   ''            const dropdownBtn = document.getElementById('jq-dropdown-btn');\<newline>'' @
   ''            const dropdownList = document.getElementById('jq-dropdown-list');\<newline>'' @
   ''            dropdownBtn.addEventListener('click', (e) => {\<newline>'' @
   ''                e.stopPropagation();\<newline>'' @
   ''                dropdownList.style.display = dropdownList.style.display === 'none' ? 'block' : 'none';\<newline>'' @
   ''            });\<newline>'' @
   ''            document.body.addEventListener('click', () => {\<newline>'' @
   ''                dropdownList.style.display = 'none';\<newline>'' @
   ''            });\<newline>'' @
   ''            dropdownList.addEventListener('click', (e) => { e.stopPropagation(); });\<newline>'' @
   ''            Array.from(dropdownList.getElementsByClassName('jq-dropdown-item')).forEach(item => {\<newline>'' @
   ''                item.addEventListener('click', () => {\<newline>'' @
   ''                    const value = item.getAttribute('data-value');\<newline>'' @
   ''                    let selected = Array.from(dropdownList.getElementsByClassName('jq-dropdown-item'))\<newline>'' @
   ''                        .filter(i => i.classList.contains('selected'))\<newline>'' @
   ''                        .map(i => i.getAttribute('data-value'));\<newline>'' @
   ''                    if (item.classList.contains('selected')) {\<newline>'' @
   ''                        selected = selected.filter(v => v !== value);\<newline>'' @
   ''                    } else {\<newline>'' @
   ''                        selected.push(value);\<newline>'' @
   ''                    }\<newline>'' @
   ''                    vscode.postMessage({ type: 'setOptions', options: selected });\<newline>'' @
   ''                    dropdownList.style.display = 'none';\<newline>'' @
   ''                });\<newline>'' @
   ''            });\<newline>'' @
   ''            Array.from(document.getElementsByClassName('jq-chip-x')).forEach(x => {\<newline>'' @
   ''                x.addEventListener('click', (e) => {\<newline>'' @
   ''                    e.stopPropagation();\<newline>'' @
   ''                    const value = x.getAttribute('data-value');\<newline>'' @
   ''                    let selected = Array.from(dropdownList.getElementsByClassName('jq-dropdown-item'))\<newline>'' @
   ''                        .filter(i => i.classList.contains('selected') && i.getAttribute('data-value') !== value)\<newline>'' @
   ''                        .map(i => i.getAttribute('data-value'));\<newline>'' @
   ''                    vscode.postMessage({ type: 'setOptions', options: selected });\<newline>'' @
   ''                    dropdownList.style.display = 'none';\<newline>'' @
   ''                });\<newline>'' @
   ''            });\<newline>'' @
   ''\<newline>'' @
   ''            // Handle loading indicator\<newline>'' @
   ''            window.addEventListener('message', event => {\<newline>'' @
   ''                const msg = event.data;\<newline>'' @
   ''                if (msg && msg.type === 'setLoading') {\<newline>'' @
   ''                    const indicator = document.getElementById('jq-activity-indicator');\<newline>'' @
   ''                    if (indicator) {\<newline>'' @
   ''                        if (msg.loading) {\<newline>'' @
   ''                            indicator.classList.add('active');\<newline>'' @
   ''                        } else {\<newline>'' @
   ''                            indicator.classList.remove('active');\<newline>'' @
   ''                        }\<newline>'' @
   ''                    }\<newline>'' @
   ''                }\<newline>'' @
   ''            });\<newline>'' @
   ''            </script>\<newline>'' @
   ''        </body>\<newline>'' @
   ''        </html>''\<close>

text \<open>
  \<^verbatim>\<open>getWebviewContent\<close>. A result is rendered through \<^verbatim>\<open>highlightJson\<close> unless \<^verbatim>\<open>-r\<close>
  is set, every other body through \<^verbatim>\<open>escapeHtml\<close>; the buttons that copy and open
  the result are part of the page when the preview state is a result.
\<close>

definition inputFileDisplay :: "world \<Rightarrow> session \<Rightarrow> string" where
  \<open>inputFileDisplay w s =
     (let (name, description) = filenameDisplay w (uri_fsPath w (inputFile s))
      in ''<span class="jq-input-name">'' @ escapeHtml name
         @ ''</span><span class="jq-input-desc"> '' @ escapeHtml description @ ''</span>'')\<close>

definition highlightedContent :: "session \<Rightarrow> string" where
  \<open>highlightedContent s =
     (let isRaw = ''-r'' \<in> set (options s)
      in if \<not> isRaw \<and> ptype (previewState s) = Result
         then ''<pre class="jq-json-output">'' @ highlightJson (content (previewState s)) @ ''</pre>''
         else ''<pre>'' @ escapeHtml (content (previewState s)) @ ''</pre>'')\<close>

definition resultActions :: "session \<Rightarrow> string" where
  "resultActions s =
     (if ptype (previewState s) = Result
      then actions_open @ copyIcon @ actions_between @ openIcon @ actions_close
      else [])"

definition previewContent :: "world \<Rightarrow> session \<Rightarrow> string" where
  "previewContent w s =
     preview_open @ inputFileDisplay w s @ preview_choose
     @ renderOptionSelection (options s) @ preview_content_open
     @ resultActions s
     @ preview_pane_open @ PreviewType_value (ptype (previewState s)) @ preview_pane_class
     @ highlightedContent s @ preview_close"

definition getWebviewContent :: "world \<Rightarrow> session \<Rightarrow> string" where
  "getWebviewContent w s =
     (if inputFile s = [] then no_input_html
      else page_head @ previewContent w s @ page_tail)"

subsection \<open>The loading indicator\<close>

definition setLoadingIndicator :: "session \<Rightarrow> bool \<Rightarrow> session" where
  "setLoadingIndicator s on = s\<lparr>panel := (panel s)\<lparr>posted := posted (panel s) @ [on]\<rparr>\<rparr>"

definition updateLoadingIndicatorState :: "session \<Rightarrow> session" where
  "updateLoadingIndicatorState s =
     (let loading = (needUpdate s \<or> updating s) in
      if \<not> loading then
        (setLoadingIndicator (s\<lparr>loadingIndicatorTimeout := False\<rparr>) False)\<lparr>lastLoadingState := False\<rparr>
      else if lastLoadingState s then setLoadingIndicator s True
      else if \<not> loadingIndicatorTimeout s then s\<lparr>loadingIndicatorTimeout := True\<rparr>
      else s)"

text \<open>The callback of the 100 ms timer that \<^verbatim>\<open>updateLoadingIndicatorState\<close> sets.\<close>

definition loadingTimerFired :: "session \<Rightarrow> session" where
  "loadingTimerFired s =
     (let s1 = (if needUpdate s \<or> updating s
                then (setLoadingIndicator s True)\<lparr>lastLoadingState := True\<rparr>
                else s)
      in s1\<lparr>loadingIndicatorTimeout := False\<rparr>)"

subsection \<open>Writing the panel\<close>

text \<open>
  Assigning \<^verbatim>\<open>panel.webview.html\<close>. The result is the session and the exception thrown,
  if any. The field \<^verbatim>\<open>panel\<close> is assigned once, in the constructor, so the tests
  \<^verbatim>\<open>if (this.panel)\<close> of the source always pass and are left out.
\<close>

definition assignHtml :: "world \<Rightarrow> session \<Rightarrow> string \<Rightarrow> session \<times> string option" where
  "assignHtml w s markup =
     (if disposed (panel s) \<and> html_setter_throws w then (s, Some ''Webview is disposed'')
      else (s\<lparr>panel := (panel s)\<lparr>html := markup\<rparr>\<rparr>, None))"

definition setWebviewContent :: "world \<Rightarrow> session \<Rightarrow> session \<times> string option" where
  "setWebviewContent w s =
     (case assignHtml w s (getWebviewContent w s) of
        (s1, Some exn) \<Rightarrow> (s1, Some exn)
      | (s1, None) \<Rightarrow> (updateLoadingIndicatorState s1, None))"

subsection \<open>One call of the evaluator\<close>

datatype exec_result = Exited string | Failed js_error

definition install_hint :: string where
  "install_hint =
     ''jq command not found. Please install jq on your system: https://jqlang.org/download/''"

text \<open>\<^verbatim>\<open>error.stdout || error.stderr || error.message || String(error)\<close>: the first
  operand that is neither undefined nor the empty string. When the message is empty,
  \<^verbatim>\<open>String(error)\<close> is the name of the error.\<close>

definition truthy :: "string option \<Rightarrow> bool" where
  "truthy x = (case x of None \<Rightarrow> False | Some v \<Rightarrow> v \<noteq> [])"

definition error_text :: "js_error \<Rightarrow> string" where
  "error_text e =
     (if truthy (err_stdout e) then the (err_stdout e)
      else if truthy (err_stderr e) then the (err_stderr e)
      else if err_message e \<noteq> [] then err_message e
      else ''Error'')"

text \<open>
  The \<^verbatim>\<open>catch\<close> block of \<^verbatim>\<open>executeJq\<close>. First the names of the temporary files are
  replaced in the text of the error by the displayed paths of the input and of the
  filter; then a text that holds \<^verbatim>\<open>command not found\<close> is replaced by the hint. The
  result is the message of the error that the block throws.
\<close>

definition rewrite_paths :: "world \<Rightarrow> session \<Rightarrow> string \<Rightarrow> string \<Rightarrow> string \<Rightarrow> string" where
  "rewrite_paths w s tmpFile tmpFilter errMsg0 =
     (let jsonDisplay = getWorkspaceRelativePath w (inputFile s);
          filterDisplay = getWorkspaceRelativePath w (filterFileName w);
          errMsg = (if jsonDisplay \<noteq> [] then replaceAll errMsg0 tmpFile jsonDisplay else errMsg0)
      in if filterDisplay \<noteq> [] then replaceAll errMsg tmpFilter filterDisplay else errMsg)"

definition executeJq_catch :: "world \<Rightarrow> session \<Rightarrow> string \<Rightarrow> string \<Rightarrow> js_error \<Rightarrow> string" where
  "executeJq_catch w s tmpFile tmpFilter e =
     (let errMsg = rewrite_paths w s tmpFile tmpFilter (error_text e)
      in if str_includes errMsg ''command not found'' then install_hint else errMsg)"

text \<open>The \<^verbatim>\<open>finally\<close> block of \<^verbatim>\<open>executeJq\<close>: both files are unlinked, each in its own
  \<^verbatim>\<open>try\<close> with an empty \<^verbatim>\<open>catch\<close>.\<close>

definition unlink_quietly :: "world \<Rightarrow> string \<Rightarrow> world" where
  "unlink_quietly w p = (case unlinkSync w p of Inl e \<Rightarrow> w | Inr w' \<Rightarrow> w')"

definition executeJq_finally :: "world \<Rightarrow> string \<Rightarrow> string \<Rightarrow> world" where
  "executeJq_finally w tmpFile tmpFilter = unlink_quietly (unlink_quietly w tmpFile) tmpFilter"

definition jq_command :: "string list \<Rightarrow> string \<Rightarrow> string \<Rightarrow> string" where
  "jq_command opts tmpFilter tmpFile =
     ''jq '' @ join '' '' opts @ '' -f '' @ [CHR 0x27] @ tmpFilter @ [CHR 0x27] @ '' ''
     @ [CHR 0x27] @ tmpFile @ [CHR 0x27] @ '' 2>&1''"

text \<open>
  The names of the two temporary files: in the temporary directory, each with the
  hexadecimal form of eight random bytes, drawn one after the other.
\<close>

definition new_tmpFile :: "world \<Rightarrow> string" where
  "new_tmpFile w =
     path_join w (tmpdir w) (''jq-playground-'' @ randomHex w (rand_count w) @ ''.json'')"

definition new_tmpFilter :: "world \<Rightarrow> string" where
  "new_tmpFilter w =
     path_join w (tmpdir w) (''jq-playground-filter-'' @ randomHex w (rand_count w + 1) @ ''.jq'')"

text \<open>
  \<^verbatim>\<open>executeJq\<close> up to its \<^verbatim>\<open>await\<close>: the names of the temporary files are drawn, both
  files are written and the evaluator is started. \<open>Inr\<close> is the suspended call;
  \<open>Inl\<close> is the message of the error thrown when a write fails, after the
  \<^verbatim>\<open>catch\<close> and \<^verbatim>\<open>finally\<close> blocks have run.
\<close>

definition executeJq_begin :: "world \<Rightarrow> session \<Rightarrow> string \<Rightarrow> world \<times> (string + pending)" where
  "executeJq_begin w s jsonContent =
     (let tmpFile = new_tmpFile w;
          tmpFilter = new_tmpFilter w;
          w0 = w\<lparr>rand_count := rand_count w + 2\<rparr>
      in case writeFileSync w0 tmpFile jsonContent of
           Inl e \<Rightarrow> (executeJq_finally w0 tmpFile tmpFilter,
                     Inl (executeJq_catch w0 s tmpFile tmpFilter e))
         | Inr w1 \<Rightarrow>
             (case writeFileSync w1 tmpFilter (filterText w1) of
                Inl e \<Rightarrow> (executeJq_finally w1 tmpFile tmpFilter,
                          Inl (executeJq_catch w1 s tmpFile tmpFilter e))
              | Inr w2 \<Rightarrow>
                  (w2, Inr \<lparr>p_tmpFile = tmpFile, p_tmpFilter = tmpFilter,
                            p_command = jq_command (options s) tmpFilter tmpFile\<rparr>)))"

text \<open>
  \<^verbatim>\<open>executeJq\<close> from its \<^verbatim>\<open>await\<close> on, when the evaluator has ended with \<open>r\<close>:
  \<open>Inr\<close> is the value returned, \<open>Inl\<close> the message of the error thrown.
\<close>

definition executeJq_end :: "world \<Rightarrow> session \<Rightarrow> pending \<Rightarrow> exec_result \<Rightarrow> world \<times> (string + string)" where
  "executeJq_end w s p r =
     (executeJq_finally w (p_tmpFile p) (p_tmpFilter p),
      case r of
        Exited stdout \<Rightarrow> Inr (trim stdout)
      | Failed e \<Rightarrow> Inl (executeJq_catch w s (p_tmpFile p) (p_tmpFilter p) e))"

subsection \<open>The update loop\<close>

text \<open>
  The input is the text of the open document of that name if there is one, else the
  file on disk.
\<close>

definition read_input :: "world \<Rightarrow> session \<Rightarrow> js_error + string" where
  "read_input w s =
     (case find (\<lambda>doc. fst doc = inputFile s) (textDocuments w) of
        Some openDoc \<Rightarrow> Inr (snd openDoc)
      | None \<Rightarrow> readFileSync w (inputFile s))"

text \<open>
  The end of the inner \<^verbatim>\<open>try\<close> of \<^verbatim>\<open>runUpdate\<close>: the outcome (\<open>Inr\<close> the output,
  \<open>Inl\<close> the message of the error caught) becomes the preview state and the panel is
  written.
\<close>

definition runUpdate_apply :: "world \<Rightarrow> session \<Rightarrow> string + string \<Rightarrow> session \<times> string option" where
  "runUpdate_apply w s r =
     setWebviewContent w
       (s\<lparr>previewState :=
            (case r of
               Inl message \<Rightarrow> \<lparr>content = message, ptype = Error\<rparr>
             | Inr output \<Rightarrow> \<lparr>content = output, ptype = Result\<rparr>)\<rparr>)"

text \<open>The statements of \<^verbatim>\<open>runUpdate\<close> before its \<^verbatim>\<open>try\<close>; the call is counted.\<close>

definition runUpdate_enter :: "session \<Rightarrow> session" where
  "runUpdate_enter s =
     updateLoadingIndicatorState (s\<lparr>updating := True, needUpdate := False, runs := runs s + 1\<rparr>)"

text \<open>
  \<^verbatim>\<open>runUpdate\<close> is an async function. It runs to its \<^verbatim>\<open>await\<close> and is suspended there
  (the call joins \<open>inflight\<close>), unless the input cannot be read or a temporary file
  cannot be written: then no process is started, the error is caught and the call runs
  to its end before any other event is handled. \<open>runUpdate_finally\<close> is the
  \<^verbatim>\<open>finally\<close> block; \<open>exn\<close> is the exception on its way out, which rejects the promise
  that nobody awaits.
\<close>

function runUpdate :: "world \<Rightarrow> session \<Rightarrow> world \<times> session"
  and runUpdate_finally :: "world \<Rightarrow> session \<Rightarrow> string option \<Rightarrow> world \<times> session" where
  "runUpdate w s =
     (let s1 = runUpdate_enter s
      in case read_input w s1 of
           Inl e \<Rightarrow>
             (case runUpdate_apply w s1 (Inl (err_message e)) of
                (s2, exn) \<Rightarrow> runUpdate_finally w s2 exn)
         | Inr jsonContent \<Rightarrow>
             (case executeJq_begin w s1 jsonContent of
                (w1, Inl message) \<Rightarrow>
                  (case runUpdate_apply w1 s1 (Inl message) of
                     (s2, exn) \<Rightarrow> runUpdate_finally w1 s2 exn)
              | (w1, Inr p) \<Rightarrow> (w1, s1\<lparr>inflight := inflight s1 @ [p]\<rparr>)))"
| "runUpdate_finally w s exn =
     (let s1 = s\<lparr>updating := False\<rparr>;
          (w2, s2) = (if needUpdate s1 then runUpdate w s1
                      else (w, updateLoadingIndicatorState s1))
      in (w2, s2\<lparr>escaped := escaped s2 @ (case exn of None \<Rightarrow> [] | Some m \<Rightarrow> [m])\<rparr>))"
  by pat_completeness auto


text \<open>
  The recursion ends: the panel writes between the start of \<^verbatim>\<open>runUpdate\<close> and its
  \<^verbatim>\<open>finally\<close> block leave \<open>needUpdate\<close> cleared, so a call that is not suspended
  does not start another one.
\<close>

lemma needUpdate_updateLoadingIndicatorState [simp]:
  "needUpdate (updateLoadingIndicatorState s) = needUpdate s"
  by (simp add: updateLoadingIndicatorState_def setLoadingIndicator_def Let_def)

lemma needUpdate_runUpdate_enter [simp]: "needUpdate (runUpdate_enter s) = False"
  by (simp add: runUpdate_enter_def)

lemma needUpdate_setWebviewContent:
  "setWebviewContent w s = (s', exn) \<Longrightarrow> needUpdate s' = needUpdate s"
  by (auto simp: setWebviewContent_def assignHtml_def split: if_splits)

lemma needUpdate_runUpdate_apply:
  "runUpdate_apply w s r = (s', exn) \<Longrightarrow> needUpdate s' = needUpdate s"
  by (auto simp: runUpdate_apply_def dest: needUpdate_setWebviewContent)

termination runUpdate
proof (relation "measure (\<lambda>x. case x of
                   Inl (w, s) \<Rightarrow> (1::nat)
                 | Inr (w, s, exn) \<Rightarrow> (if needUpdate s then 2 else 0))")
  show "wf (measure (\<lambda>x. case x of
                   Inl (w, s) \<Rightarrow> (1::nat)
                 | Inr (w, s, exn) \<Rightarrow> (if needUpdate s then 2 else 0)))"
    by simp
qed (auto split: prod.splits dest!: needUpdate_runUpdate_apply)

declare runUpdate.simps [simp del] runUpdate_finally.simps [simp del]

definition requestUpdate :: "world \<Rightarrow> session \<Rightarrow> world \<times> session" where
  "requestUpdate w s =
     (let s1 = updateLoadingIndicatorState (s\<lparr>needUpdate := True\<rparr>)
      in if \<not> updating s1 then runUpdate w s1 else (w, s1))"

text \<open>
  \<^verbatim>\<open>updateWebview\<close>: when the write of the panel throws, the request is not made and the
  exception leaves the caller, an event handler.
\<close>

definition updateWebview :: "world \<Rightarrow> session \<Rightarrow> world \<times> session" where
  "updateWebview w s =
     (case setWebviewContent w s of
        (s1, Some exn) \<Rightarrow> (w, s1\<lparr>escaped := escaped s1 @ [exn]\<rparr>)
      | (s1, None) \<Rightarrow> requestUpdate w s1)"

text \<open>
  The completion of the evaluator for the suspended call \<open>p\<close>: \<^verbatim>\<open>executeJq\<close> ends,
  \<^verbatim>\<open>runUpdate\<close> takes its outcome and runs to its end.
\<close>

definition runUpdate_resume :: "world \<Rightarrow> session \<Rightarrow> pending \<Rightarrow> exec_result \<Rightarrow> world \<times> session" where
  "runUpdate_resume w s p r =
     (case executeJq_end w s p r of
        (w1, outcome) \<Rightarrow>
          (case runUpdate_apply w1 s outcome of
             (s1, exn) \<Rightarrow> runUpdate_finally w1 s1 exn))"

subsection \<open>Messages of the panel, teardown\<close>

text \<open>
  A message of the web view: its \<^verbatim>\<open>type\<close>, its \<^verbatim>\<open>options\<close> and its \<^verbatim>\<open>content\<close>; a
  handler reads the fields of its own message only. For a \<^verbatim>\<open>chooseInput\<close> message the
  handler does nothing before it awaits the file picker: \<open>onDidReceiveMessage\<close> is then
  what it does once the picker has answered \<open>picked\<close> (\<open>None\<close> when nothing is picked; an
  empty path is falsy). For an \<^verbatim>\<open>openResultDoc\<close> message the handler awaits
  \<^verbatim>\<open>openTextDocument\<close> between the making of the document and its showing; after
  that it reads the column of the panel, which the host keeps, and no field of the
  session, and both halves are one step here.
\<close>

record message =
  msg_type :: string
  msg_options :: "string list"
  msg_content :: string

definition ViewColumn_Active :: int where
  "ViewColumn_Active = - 1"

text \<open>The column to the left of the panel if there is one.\<close>

definition targetColumn :: "world \<Rightarrow> int" where
  "targetColumn w =
     (case panelViewColumn w of
        None \<Rightarrow> ViewColumn_Active
      | Some viewColumn \<Rightarrow>
          if viewColumn \<noteq> 0 \<and> viewColumn > 1 then viewColumn - 1 else ViewColumn_Active)"

definition onDidReceiveMessage :: "world \<Rightarrow> session \<Rightarrow> message \<Rightarrow> string option \<Rightarrow> world \<times> session" where
  "onDidReceiveMessage w s msg picked =
     (if msg_type msg = ''setOptions'' then
        updateWebview w (s\<lparr>options := msg_options msg\<rparr>)
      else if msg_type msg = ''chooseInput'' then
        (case picked of
           None \<Rightarrow> (w, s)
         | Some newInput \<Rightarrow>
             if newInput \<noteq> [] then
               updateWebview w
                 (s\<lparr>inputFile := newInput, options := updateROption newInput (options s)\<rparr>)
             else (w, s))
      else if msg_type msg = ''openResultDoc'' then
        (let isRaw = ''-r'' \<in> set (options s);
             doc = \<lparr>doc_content = msg_content msg,
                    doc_language = (if isRaw then None else Some ''json'')\<rparr>
         in (w\<lparr>shown := shown w @ [(doc, targetColumn w)]\<rparr>, s))
      else (w, s))"

text \<open>
  The click handler of the page for the button \<^verbatim>\<open>jq-open-btn\<close>: it posts the text that
  the result pane shows, \<^verbatim>\<open>resultPane.innerText\<close>. The message has no options.
\<close>

definition jq_open_btn_click :: "string \<Rightarrow> message" where
  "jq_open_btn_click text = \<lparr>msg_type = ''openResultDoc'', msg_options = [], msg_content = text\<rparr>"

definition dispose :: "session \<Rightarrow> session" where
  "dispose s = s\<lparr>disposables := []\<rparr>"

text \<open>
  The panel is closed: the host disposes it and calls the handler registered with
  \<^verbatim>\<open>onDidDispose\<close>, which calls \<^verbatim>\<open>dispose\<close> and removes the session from the registry.
\<close>

definition onDidDispose :: "session \<Rightarrow> session" where
  "onDidDispose s = (dispose (s\<lparr>panel := (panel s)\<lparr>disposed := True\<rparr>\<rparr>))\<lparr>registered := False\<rparr>"

text \<open>The watcher reports that the input file was deleted.\<close>

definition onDidDelete :: "world \<Rightarrow> session \<Rightarrow> session" where
  "onDidDelete w s =
     (case assignHtml w s input_deleted_html of
        (s1, Some exn) \<Rightarrow> s1\<lparr>escaped := escaped s1 @ [exn]\<rparr>
      | (s1, None) \<Rightarrow> s1)"

text \<open>
  A change of a text document: the two handlers of \<^verbatim>\<open>onDidChangeTextDocument\<close> run in
  the order of their registration, each while it is subscribed.
\<close>

definition onDidChangeTextDocument :: "world \<Rightarrow> session \<Rightarrow> string \<Rightarrow> bool \<Rightarrow> world \<times> session" where
  "onDidChangeTextDocument w s fileName isFilterDocument =
     (let (w1, s1) = (if JsonChangeDisposable \<in> set (disposables s) \<and> fileName = inputFile s
                      then requestUpdate w s else (w, s))
      in if QueryChangeDisposable \<in> set (disposables s1) \<and> isFilterDocument
         then requestUpdate w1 s1 else (w1, s1))"

subsection \<open>The constructor and the command\<close>

definition new_session :: "string \<Rightarrow> string list \<Rightarrow> session" where
  "new_session inputFile0 options0 =
     \<lparr>needUpdate = False, updating = False,
      previewState = \<lparr>content = ''Loading...'', ptype = Placeholder\<rparr>,
      lastLoadingState = False, loadingIndicatorTimeout = False,
      disposables = (if inputFile0 \<noteq> []
                     then [JsonWatcher, JsonChangeDisposable, QueryChangeDisposable] else []),
      panel = \<lparr>html = [], posted = [], disposed = False\<rparr>,
      inputFile = inputFile0, options = options0, registered = True,
      runs = 0, inflight = [], escaped = []\<rparr>"

text \<open>
  The command \<^verbatim>\<open>jqPlayground.openPreview\<close> when no session exists for the document:
  \<open>None\<close> when the active document is not a \<^verbatim>\<open>.jq\<close> file or no input is picked.
\<close>

definition openPreview :: "world \<Rightarrow> string option \<Rightarrow> (world \<times> session) option" where
  "openPreview w picked =
     (if \<not> endsWith (filterFileName w) ''.jq'' then None
      else case picked of
             None \<Rightarrow> None
           | Some inputFile0 \<Rightarrow>
               if inputFile0 = [] then None
               else Some (updateWebview w (new_session inputFile0 (updateROption inputFile0 []))))"

subsection \<open>Events\<close>

text \<open>
  What can happen to an open session, one event at a time (the extension host runs the
  handlers on one thread, each to its end or to its \<^verbatim>\<open>await\<close>). The host delivers the
  events of a subscription only while it is subscribed, the messages only while the
  panel exists, and the command reaches the session only while it is registered. The
  answer of the file picker can come after the panel is closed, and the handler of
  \<^verbatim>\<open>chooseInput\<close> goes on all the same.
  \<open>EvaluatorEnded i r\<close> is the end of the process that the \<open>i\<close>th suspended call
  waits for. \<open>WorldChanged\<close> is any change of the environment between two events.
\<close>

datatype event =
    WatcherChanged
  | WatcherDeleted
  | TextDocumentChanged string bool
  | Message message "string option"
  | OpenPreviewAgain
  | LoadingTimer
  | PanelClosed
  | EvaluatorEnded nat exec_result
  | WorldChanged world

fun step :: "world \<times> session \<Rightarrow> event \<Rightarrow> world \<times> session" where
  "step (w, s) WatcherChanged =
     (if JsonWatcher \<in> set (disposables s) then requestUpdate w s else (w, s))"
| "step (w, s) WatcherDeleted =
     (if JsonWatcher \<in> set (disposables s) then (w, onDidDelete w s) else (w, s))"
| "step (w, s) (TextDocumentChanged fileName isFilterDocument) =
     onDidChangeTextDocument w s fileName isFilterDocument"
| "step (w, s) (Message msg picked) =
     (if msg_type msg = ''chooseInput'' \<or> \<not> disposed (panel s)
      then onDidReceiveMessage w s msg picked else (w, s))"
| "step (w, s) OpenPreviewAgain =
     (if registered s then updateWebview w s else (w, s))"
| "step (w, s) LoadingTimer =
     (if loadingIndicatorTimeout s then (w, loadingTimerFired s) else (w, s))"
| "step (w, s) PanelClosed =
     (if \<not> disposed (panel s) then (w, onDidDispose s) else (w, s))"
| "step (w, s) (EvaluatorEnded i r) =
     (if i < length (inflight s)
      then runUpdate_resume w (s\<lparr>inflight := take i (inflight s) @ drop (Suc i) (inflight s)\<rparr>)
             (inflight s ! i) r
      else (w, s))"
| "step (w, s) (WorldChanged w') = (w', s)"

definition run :: "world \<times> session \<Rightarrow> event list \<Rightarrow> world \<times> session" where
  "run c evs = foldl step c evs"


section \<open>Single flight, and an example\<close>

text \<open>
  The state of the update loop is sound when at most one call is suspended, the flag
  \<open>updating\<close> is set exactly while one is, and a request is pending only then.
\<close>

definition single_flight :: "session \<Rightarrow> bool" where
  "single_flight s \<longleftrightarrow>
     length (inflight s) \<le> 1 \<and> (updating s \<longleftrightarrow> inflight s \<noteq> []) \<and> (needUpdate s \<longrightarrow> updating s)"

text \<open>\<open>N\<close> change notifications in a row: \<open>N\<close> calls of \<^verbatim>\<open>requestUpdate\<close>.\<close>

definition notifications :: "nat \<Rightarrow> world \<times> session \<Rightarrow> world \<times> session" where
  "notifications N c = ((\<lambda>c. requestUpdate (fst c) (snd c)) ^^ N) c"

text \<open>
  A concrete host for the examples: a POSIX workspace \<^verbatim>\<open>/ws\<close> with one input file, no
  open document of that name, no file fault, and a host that throws when the markup of
  a disposed panel is assigned.
\<close>

definition posix_basename :: "string \<Rightarrow> string" where
  "posix_basename p = rev (takeWhile (\<lambda>c. c \<noteq> CHR ''/'') (rev p))"

definition posix_dirname :: "string \<Rightarrow> string" where
  "posix_dirname p =
     (if CHR ''/'' \<notin> set p then ''.''
      else if rev (drop 1 (dropWhile (\<lambda>c. c \<noteq> CHR ''/'') (rev p))) = [] then ''/''
      else rev (drop 1 (dropWhile (\<lambda>c. c \<noteq> CHR ''/'') (rev p))))"

definition example_world :: world where
  \<open>example_world =
     \<lparr>workspaceFolders = Some [''/ws''],
      path_join = (\<lambda>a b. a @ ''/'' @ b),
      path_basename = posix_basename,
      path_relative = (\<lambda>a b. drop (length a + 1) b),
      tmpdir = ''/tmp'',
      randomHex = (\<lambda>n. if even n then ''00a1b2c3d4e5f607'' else ''8192a3b4c5d6e7f8''),
      rand_count = 0,
      textDocuments = [],
      files = [''/ws/people.json'' \<mapsto> ''[{"name":"Alice","age":30}]''],
      fs_fault = (\<lambda>_ _. None),
      filterFileName = ''/ws/filter.jq'',
      filterText = ''.[] | {name, age}'',
      html_setter_throws = True,
      path_dirname = posix_dirname,
      path_sep = ''/'',
      uri_fsPath = (\<lambda>p. p),
      panelViewColumn = Some 2,
      shown = []\<rparr>\<close>

text \<open>The session that the command opens on the example host.\<close>

definition example_config :: "world \<times> session" where
  "example_config = updateWebview example_world (new_session ''/ws/people.json'' [])"



text \<open>The five entities of \<^verbatim>\<open>escapeHtml\<close>.\<close>

definition entities :: "string set" where
  "entities = {''&amp;'', ''&lt;'', ''&gt;'', ''&quot;'', ''&#039;''}"

text \<open>
  Two states of the host that differ at most in the files on disk and in the random
  bytes drawn: all that an invocation changes.
\<close>

definition same_host :: "world \<Rightarrow> world \<Rightarrow> bool" where
  "same_host w' w \<longleftrightarrow> w' = w\<lparr>rand_count := rand_count w', files := files w'\<rparr>"


text \<open>
  The same command on a host that throws (\<open>True\<close>) or does not throw (\<open>False\<close>)
  when the markup of a disposed panel is assigned.
\<close>

definition example_open :: "bool \<Rightarrow> world \<times> session" where
  "example_open b =
     updateWebview (example_world\<lparr>html_setter_throws := b\<rparr>) (new_session ''/ws/people.json'' [])"

text \<open>The invocation that the example session waits for.\<close>

definition example_pending :: pending where
  "example_pending =
     \<lparr>p_tmpFile = ''/tmp/jq-playground-00a1b2c3d4e5f607.json'',
      p_tmpFilter = ''/tmp/jq-playground-filter-8192a3b4c5d6e7f8.jq'',
      p_command = jq_command [] ''/tmp/jq-playground-filter-8192a3b4c5d6e7f8.jq''
                    ''/tmp/jq-playground-00a1b2c3d4e5f607.json''\<rparr>"

text \<open>The example host with a disk that refuses to write the copy of the filter.\<close>

definition example_full_disk :: world where
  "example_full_disk =
     example_world\<lparr>fs_fault := (\<lambda>op p. if op = OpWrite \<and> p = p_tmpFilter example_pending
                                      then Some ''ENOSPC: no space left on device, write''
                                      else None)\<rparr>"

text \<open>
  The error of \<^verbatim>\<open>exec\<close> when the evaluator is not installed: the shell ends with
  status 127 and its diagnostic is captured in \<^verbatim>\<open>stdout\<close> (the command redirects
  \<^verbatim>\<open>stderr\<close>). The text is that of \<^verbatim>\<open>dash\<close>, the \<^verbatim>\<open>/bin/sh\<close> of Debian and Ubuntu,
  in the first error, and that of \<^verbatim>\<open>bash\<close> in the second.
\<close>

definition jq_missing_dash :: js_error where
  "jq_missing_dash =
     \<lparr>err_stdout = Some ''/bin/sh: 1: jq: not found\<newline>'', err_stderr = Some [],
      err_message = ''Command failed: jq\<newline>/bin/sh: 1: jq: not found\<newline>''\<rparr>"



text \<open>
  The text that the panel shows for a fragment of markup, which is what the page reads
  as \<^verbatim>\<open>innerText\<close> of the result pane for the content of a \<^verbatim>\<open>pre\<close> element: a tag,
  from a \<^verbatim>\<open><\<close> that a letter or a slash follows to the next \<^verbatim>\<open>>\<close>, is no text, and
  each of the five character references that \<^verbatim>\<open>escapeHtml\<close> writes stands for its
  character within the text between two tags. Any other \<^verbatim>\<open>&\<close> is shown as it is.
\<close>

definition isLetter :: "char \<Rightarrow> bool" where
  "isLetter c \<longleftrightarrow> c \<in> set ''abcdefghijklmnopqrstuvwxyzABCDEFGHIJKLMNOPQRSTUVWXYZ''"

definition character_reference :: "string \<Rightarrow> (char \<times> nat) option" where
  \<open>character_reference s =
     (if startsWith s ''&amp;'' then Some (CHR ''&'', 5)
      else if startsWith s ''&lt;'' then Some (CHR ''<'', 4)
      else if startsWith s ''&gt;'' then Some (CHR ''>'', 4)
      else if startsWith s ''&quot;'' then Some (CHR 0x22, 6)
      else if startsWith s ''&#039;'' then Some (CHR 0x27, 6)
      else None)\<close>

function markup_text :: "bool \<Rightarrow> string \<Rightarrow> string" where
  "markup_text in_tag [] = []"
| "markup_text True (c # cs) =
     (if c = CHR ''>'' then markup_text False cs else markup_text True cs)"
| "markup_text False (c # cs) =
     (if c = CHR ''<'' \<and> (case cs of [] \<Rightarrow> False | d # ds \<Rightarrow> isLetter d \<or> d = CHR ''/'')
      then markup_text True cs
      else case character_reference (c # cs) of
             None \<Rightarrow> c # markup_text False cs
           | Some (ch, n) \<Rightarrow> ch # markup_text False (drop (n - 1) cs))"
  by pat_completeness auto
termination
  by (relation "measure (\<lambda>(in_tag, s). length s)") auto

definition innerText :: "string \<Rightarrow> string" where
  "innerText markup = markup_text False markup"

text \<open>
  The example session with a result that has an apostrophe in a string, and with a
  result that is a string with markup in it.
\<close>

definition example_apostrophe :: session where
  \<open>example_apostrophe =
     (new_session ''/ws/people.json'' [])
       \<lparr>previewState := \<lparr>content = ''"it's"'', ptype = Result\<rparr>\<rparr>\<close>

definition example_markup :: session where
  \<open>example_markup =
     (new_session ''/ws/people.json'' [])
       \<lparr>previewState :=
          \<lparr>content = ''"hljs-attr <img src=x onerror=alert(document.title)>"'', ptype = Result\<rparr>\<rparr>\<close>

section \<open>What each operation leaves as it is\<close>

lemma updateLoadingIndicatorState_fields [simp]:
  "updating (updateLoadingIndicatorState s) = updating s"
  "previewState (updateLoadingIndicatorState s) = previewState s"
  "disposables (updateLoadingIndicatorState s) = disposables s"
  "inputFile (updateLoadingIndicatorState s) = inputFile s"
  "options (updateLoadingIndicatorState s) = options s"
  "registered (updateLoadingIndicatorState s) = registered s"
  "runs (updateLoadingIndicatorState s) = runs s"
  "inflight (updateLoadingIndicatorState s) = inflight s"
  "escaped (updateLoadingIndicatorState s) = escaped s"
  "disposed (panel (updateLoadingIndicatorState s)) = disposed (panel s)"
  "html (panel (updateLoadingIndicatorState s)) = html (panel s)"
  by (simp_all add: updateLoadingIndicatorState_def setLoadingIndicator_def Let_def)

lemma assignHtml_cases:
  "assignHtml w s m = (s', exn) \<Longrightarrow>
     (exn = Some ''Webview is disposed'' \<and> s' = s \<and> disposed (panel s) \<and> html_setter_throws w)
   \<or> (exn = None \<and> s' = s\<lparr>panel := (panel s)\<lparr>html := m\<rparr>\<rparr> \<and> \<not> (disposed (panel s) \<and> html_setter_throws w))"
  by (auto simp: assignHtml_def split: if_splits)

lemma setWebviewContent_fields:
  assumes "setWebviewContent w s = (s', exn)"
  shows "needUpdate s' = needUpdate s" "updating s' = updating s"
    "previewState s' = previewState s" "disposables s' = disposables s"
    "inputFile s' = inputFile s" "options s' = options s" "registered s' = registered s"
    "runs s' = runs s" "inflight s' = inflight s" "escaped s' = escaped s"
    "disposed (panel s') = disposed (panel s)"
  using assms by (auto simp: setWebviewContent_def assignHtml_def split: if_splits)

lemma setWebviewContent_exn:
  assumes "setWebviewContent w s = (s', exn)"
  shows "exn = (if disposed (panel s) \<and> html_setter_throws w then Some ''Webview is disposed'' else None)"
  using assms by (auto simp: setWebviewContent_def assignHtml_def split: if_splits)

lemma runUpdate_apply_fields:
  assumes "runUpdate_apply w s r = (s', exn)"
  shows "needUpdate s' = needUpdate s" "updating s' = updating s"
    "previewState s' = (case r of Inl message \<Rightarrow> \<lparr>content = message, ptype = Error\<rparr>
                                | Inr output \<Rightarrow> \<lparr>content = output, ptype = Result\<rparr>)"
    "disposables s' = disposables s"
    "inputFile s' = inputFile s" "options s' = options s" "registered s' = registered s"
    "runs s' = runs s" "inflight s' = inflight s" "escaped s' = escaped s"
    "disposed (panel s') = disposed (panel s)"
    "exn = (if disposed (panel s) \<and> html_setter_throws w then Some ''Webview is disposed'' else None)"
  using assms setWebviewContent_fields [OF assms [unfolded runUpdate_apply_def]]
        setWebviewContent_exn [OF assms [unfolded runUpdate_apply_def]]
  by simp_all

text \<open>The \<^verbatim>\<open>finally\<close> block when no request is pending, and when one is.\<close>

lemma runUpdate_finally_idle:
  "\<not> needUpdate s \<Longrightarrow>
   runUpdate_finally w s exn =
     (w, (updateLoadingIndicatorState (s\<lparr>updating := False\<rparr>))
            \<lparr>escaped := escaped s @ (case exn of None \<Rightarrow> [] | Some m \<Rightarrow> [m])\<rparr>)"
  by (simp add: runUpdate_finally.simps)

lemma runUpdate_finally_pending:
  "needUpdate s \<Longrightarrow>
   runUpdate_finally w s exn =
     (fst (runUpdate w (s\<lparr>updating := False\<rparr>)),
      (snd (runUpdate w (s\<lparr>updating := False\<rparr>)))
         \<lparr>escaped := escaped (snd (runUpdate w (s\<lparr>updating := False\<rparr>)))
                     @ (case exn of None \<Rightarrow> [] | Some m \<Rightarrow> [m])\<rparr>)"
  by (simp add: runUpdate_finally.simps split: prod.splits)

lemma runUpdate_enter_fields [simp]:
  "updating (runUpdate_enter s) = True"
  "runs (runUpdate_enter s) = runs s + 1"
  "previewState (runUpdate_enter s) = previewState s"
  "disposables (runUpdate_enter s) = disposables s"
  "inputFile (runUpdate_enter s) = inputFile s"
  "options (runUpdate_enter s) = options s"
  "registered (runUpdate_enter s) = registered s"
  "inflight (runUpdate_enter s) = inflight s"
  "escaped (runUpdate_enter s) = escaped s"
  "disposed (panel (runUpdate_enter s)) = disposed (panel s)"
  "html (panel (runUpdate_enter s)) = html (panel s)"
  by (simp_all add: runUpdate_enter_def)

lemma runUpdate_suspends:
  assumes "read_input w (runUpdate_enter s) = Inr c"
    and "executeJq_begin w (runUpdate_enter s) c = (w1, Inr p)"
  shows "runUpdate w s = (w1, (runUpdate_enter s)\<lparr>inflight := inflight s @ [p]\<rparr>)"
  using assms by (simp add: runUpdate.simps)

lemma runUpdate_fails:
  assumes "read_input w (runUpdate_enter s) = Inl e \<and> m = err_message e \<and> w1 = w
         \<or> (\<exists>c. read_input w (runUpdate_enter s) = Inr c
                \<and> executeJq_begin w (runUpdate_enter s) c = (w1, Inl m))"
    and "runUpdate_apply w1 (runUpdate_enter s) (Inl m) = (s2, exn)"
  shows "runUpdate w s =
     (w1, (updateLoadingIndicatorState (s2\<lparr>updating := False\<rparr>))
            \<lparr>escaped := escaped s @ (case exn of None \<Rightarrow> [] | Some m \<Rightarrow> [m])\<rparr>)"
proof -
  have n: "\<not> needUpdate s2"
    using runUpdate_apply_fields(1) [OF assms(2)] by simp
  have e: "escaped s2 = escaped s"
    using runUpdate_apply_fields(10) [OF assms(2)] by simp
  show ?thesis
    using assms n e by (auto simp: runUpdate.simps [of w s] runUpdate_finally_idle)
qed

lemma setWebviewContent_live:
  "\<not> disposed (panel s) \<Longrightarrow>
   setWebviewContent w s =
     (updateLoadingIndicatorState (s\<lparr>panel := (panel s)\<lparr>html := getWebviewContent w s\<rparr>\<rparr>), None)"
  by (simp add: setWebviewContent_def assignHtml_def)



section \<open>The update loop keeps a single call in flight\<close>

lemma runUpdate_cases:
  obtains (suspended) w1 p where
      "runUpdate w s = (w1, (runUpdate_enter s)\<lparr>inflight := inflight s @ [p]\<rparr>)"
  | (ended) w1 m s2 exn where
      "runUpdate_apply w1 (runUpdate_enter s) (Inl m) = (s2, exn)"
      "runUpdate w s =
         (w1, (updateLoadingIndicatorState (s2\<lparr>updating := False\<rparr>))
                \<lparr>escaped := escaped s @ (case exn of None \<Rightarrow> [] | Some m \<Rightarrow> [m])\<rparr>)"
proof (cases "read_input w (runUpdate_enter s)")
  case (Inl e)
  obtain s2 exn where a: "runUpdate_apply w (runUpdate_enter s) (Inl (err_message e)) = (s2, exn)"
    by (cases "runUpdate_apply w (runUpdate_enter s) (Inl (err_message e))")
  show ?thesis
    using ended [OF a] runUpdate_fails [OF _ a] Inl by blast
next
  case (Inr c)
  obtain w1 x where b: "executeJq_begin w (runUpdate_enter s) c = (w1, x)"
    by (cases "executeJq_begin w (runUpdate_enter s) c")
  show ?thesis
  proof (cases x)
    case (Inl m)
    obtain s2 exn where a: "runUpdate_apply w1 (runUpdate_enter s) (Inl m) = (s2, exn)"
      by (cases "runUpdate_apply w1 (runUpdate_enter s) (Inl m)")
    show ?thesis
      using ended [OF a] runUpdate_fails [OF _ a] Inr b Inl by blast
  next
    case (Inr p)
    then show ?thesis
      using suspended runUpdate_suspends \<open>read_input w (runUpdate_enter s) = Inr c\<close> b by blast
  qed
qed

lemma runUpdate_runs [simp]: "runs (snd (runUpdate w s)) = runs s + 1"
  by (cases rule: runUpdate_cases [of w s]) (auto dest: runUpdate_apply_fields)

lemma runUpdate_needUpdate [simp]: "needUpdate (snd (runUpdate w s)) = False"
  by (cases rule: runUpdate_cases [of w s]) (auto dest: runUpdate_apply_fields)

lemma runUpdate_static [simp]:
  "options (snd (runUpdate w s)) = options s"
  "inputFile (snd (runUpdate w s)) = inputFile s"
  "disposables (snd (runUpdate w s)) = disposables s"
  "registered (snd (runUpdate w s)) = registered s"
  "disposed (panel (snd (runUpdate w s))) = disposed (panel s)"
  by (cases rule: runUpdate_cases [of w s]; auto dest: runUpdate_apply_fields)+

lemma runUpdate_inflight:
  "(\<exists>p. inflight (snd (runUpdate w s)) = inflight s @ [p] \<and> updating (snd (runUpdate w s)))
   \<or> (inflight (snd (runUpdate w s)) = inflight s \<and> \<not> updating (snd (runUpdate w s)))"
  by (cases rule: runUpdate_cases [of w s]) (auto dest: runUpdate_apply_fields)

lemma runUpdate_single_flight:
  "inflight s = [] \<Longrightarrow> single_flight (snd (runUpdate w s))"
  using runUpdate_inflight [of w s] by (auto simp: single_flight_def)

lemma runUpdate_finally_runs:
  "runs (snd (runUpdate_finally w s exn)) = runs s + (if needUpdate s then 1 else 0)"
  by (simp add: runUpdate_finally_idle runUpdate_finally_pending)

lemma runUpdate_finally_static [simp]:
  "options (snd (runUpdate_finally w s exn)) = options s"
  "inputFile (snd (runUpdate_finally w s exn)) = inputFile s"
  "disposables (snd (runUpdate_finally w s exn)) = disposables s"
  "registered (snd (runUpdate_finally w s exn)) = registered s"
  "disposed (panel (snd (runUpdate_finally w s exn))) = disposed (panel s)"
  "needUpdate (snd (runUpdate_finally w s exn)) = False"
  by (cases "needUpdate s"; simp add: runUpdate_finally_idle runUpdate_finally_pending)+

lemma runUpdate_finally_single_flight:
  assumes "inflight s = []"
  shows "single_flight (snd (runUpdate_finally w s exn))"
proof (cases "needUpdate s")
  case True
  then show ?thesis
    using runUpdate_single_flight [of "s\<lparr>updating := False\<rparr>" w] assms
    by (simp add: runUpdate_finally_pending single_flight_def)
next
  case False
  then show ?thesis
    using assms by (simp add: runUpdate_finally_idle single_flight_def)
qed

lemma requestUpdate_busy:
  "updating s \<Longrightarrow> requestUpdate w s = (w, updateLoadingIndicatorState (s\<lparr>needUpdate := True\<rparr>))"
  by (simp add: requestUpdate_def Let_def)

lemma requestUpdate_idle:
  "\<not> updating s \<Longrightarrow>
   requestUpdate w s = runUpdate w (updateLoadingIndicatorState (s\<lparr>needUpdate := True\<rparr>))"
  by (simp add: requestUpdate_def Let_def)

lemma requestUpdate_single_flight:
  "single_flight s \<Longrightarrow> single_flight (snd (requestUpdate w s))"
proof (cases "updating s")
  case True
  assume "single_flight s"
  with True show ?thesis by (simp add: requestUpdate_busy single_flight_def)
next
  case False
  assume "single_flight s"
  with False show ?thesis
    by (simp add: requestUpdate_idle single_flight_def [of s] runUpdate_single_flight)
qed

lemma requestUpdate_static [simp]:
  "options (snd (requestUpdate w s)) = options s"
  "inputFile (snd (requestUpdate w s)) = inputFile s"
  "disposables (snd (requestUpdate w s)) = disposables s"
  "registered (snd (requestUpdate w s)) = registered s"
  "disposed (panel (snd (requestUpdate w s))) = disposed (panel s)"
  by (cases "updating s"; simp add: requestUpdate_busy requestUpdate_idle)+

lemma updateWebview_single_flight:
  assumes "single_flight s"
  shows "single_flight (snd (updateWebview w s))"
proof -
  obtain s1 exn where a: "setWebviewContent w s = (s1, exn)"
    by (cases "setWebviewContent w s")
  have s1: "single_flight s1"
    using assms setWebviewContent_fields [OF a] by (auto simp: single_flight_def)
  show ?thesis
    using a s1 requestUpdate_single_flight [OF s1, of w]
    by (cases exn) (auto simp: updateWebview_def single_flight_def)
qed

lemma updateWebview_static [simp]:
  "options (snd (updateWebview w s)) = options s"
  "inputFile (snd (updateWebview w s)) = inputFile s"
  "disposables (snd (updateWebview w s)) = disposables s"
  "registered (snd (updateWebview w s)) = registered s"
  "disposed (panel (snd (updateWebview w s))) = disposed (panel s)"
  by (cases "setWebviewContent w s"; cases "snd (setWebviewContent w s)";
      auto simp: updateWebview_def dest: setWebviewContent_fields)+

lemma runUpdate_resume_single_flight:
  assumes "inflight s = []"
  shows "single_flight (snd (runUpdate_resume w s p r))"
proof -
  obtain w1 outcome where a: "executeJq_end w s p r = (w1, outcome)"
    by (cases "executeJq_end w s p r")
  obtain s1 exn where b: "runUpdate_apply w1 s outcome = (s1, exn)"
    by (cases "runUpdate_apply w1 s outcome")
  have "inflight s1 = []"
    using runUpdate_apply_fields(9) [OF b] assms by simp
  then show ?thesis
    using a b by (simp add: runUpdate_resume_def runUpdate_finally_single_flight)
qed

lemma step_single_flight:
  assumes "single_flight (snd c)"
  shows "single_flight (snd (step c e))"
proof (cases c)
  case (Pair w s)
  with assms have s: "single_flight s" by simp
  show ?thesis
  proof (cases e)
    case WatcherChanged
    then show ?thesis using Pair s by (simp add: requestUpdate_single_flight)
  next
    case WatcherDeleted
    then show ?thesis
      using Pair s
      by (auto simp: onDidDelete_def single_flight_def assignHtml_def split: prod.splits option.splits if_splits)
  next
    case (TextDocumentChanged f b)
    then show ?thesis
      using Pair s requestUpdate_single_flight
      by (auto simp: onDidChangeTextDocument_def Let_def split: prod.splits)
         (metis snd_conv)+
  next
    case (Message msg picked)
    have o: "single_flight (s\<lparr>options := opts\<rparr>)" for opts
      using s by (auto simp: single_flight_def)
    have i: "single_flight (s\<lparr>inputFile := f, options := opts\<rparr>)" for f opts
      using s by (auto simp: single_flight_def)
    have "single_flight (snd (onDidReceiveMessage w s msg picked))"
      using s updateWebview_single_flight [OF o] updateWebview_single_flight [OF i]
      by (simp add: onDidReceiveMessage_def Let_def split: option.splits)
    then show ?thesis using Pair s Message by simp
  next
    case OpenPreviewAgain
    then show ?thesis using Pair s by (simp add: updateWebview_single_flight)
  next
    case LoadingTimer
    then show ?thesis
      using Pair s by (auto simp: loadingTimerFired_def single_flight_def setLoadingIndicator_def Let_def)
  next
    case PanelClosed
    then show ?thesis
      using Pair s by (auto simp: onDidDispose_def dispose_def single_flight_def)
  next
    case (EvaluatorEnded i r)
    show ?thesis
    proof (cases "i < length (inflight s)")
      case True
      with s have "take i (inflight s) @ drop (Suc i) (inflight s) = []"
        by (simp add: single_flight_def)
      then show ?thesis
        using Pair True EvaluatorEnded by (simp add: runUpdate_resume_single_flight)
    next
      case False
      then show ?thesis using Pair s EvaluatorEnded by simp
    qed
  next
    case (WorldChanged w')
    then show ?thesis using Pair s by simp
  qed
qed

lemma run_single_flight:
  "single_flight (snd c) \<Longrightarrow> single_flight (snd (run c evs))"
  unfolding run_def by (induction evs arbitrary: c) (simp_all add: step_single_flight)

lemma openPreview_single_flight:
  "openPreview w picked = Some c \<Longrightarrow> single_flight (snd c)"
proof -
  assume a: "openPreview w picked = Some c"
  have n: "single_flight (new_session f opts)" for f opts
    by (simp add: new_session_def single_flight_def)
  from a obtain f where "c = updateWebview w (new_session f (updateROption f []))"
    by (auto simp: openPreview_def split: if_splits option.splits)
  then show ?thesis
    using updateWebview_single_flight [OF n] by simp
qed

section \<open>What an invocation changes in the host\<close>

lemma same_host_refl [simp]: "same_host w w"
  by (simp add: same_host_def)

lemma same_host_trans: "same_host w2 w1 \<Longrightarrow> same_host w1 w \<Longrightarrow> same_host w2 w"
  unfolding same_host_def by (cases w, cases w1, cases w2) auto

lemma same_host_fields:
  assumes "same_host w' w"
  shows "textDocuments w' = textDocuments w" "fs_fault w' = fs_fault w"
    "workspaceFolders w' = workspaceFolders w" "filterFileName w' = filterFileName w"
    "filterText w' = filterText w" "html_setter_throws w' = html_setter_throws w"
    "path_join w' = path_join w" "path_basename w' = path_basename w"
    "path_relative w' = path_relative w" "tmpdir w' = tmpdir w" "randomHex w' = randomHex w"
    "path_dirname w' = path_dirname w" "path_sep w' = path_sep w" "uri_fsPath w' = uri_fsPath w"
    "panelViewColumn w' = panelViewColumn w" "shown w' = shown w"
  using assms unfolding same_host_def by (cases w, cases w', auto)+

lemma same_host_unlink_quietly: "same_host (unlink_quietly w p) w"
  by (simp add: same_host_def unlink_quietly_def unlinkSync_def split: option.splits)

lemma same_host_executeJq_finally: "same_host (executeJq_finally w a b) w"
  unfolding executeJq_finally_def
  by (rule same_host_trans [OF same_host_unlink_quietly same_host_unlink_quietly])

lemma same_host_writeFileSync: "writeFileSync w p c = Inr w' \<Longrightarrow> same_host w' w"
  by (auto simp: same_host_def writeFileSync_def split: option.splits)

lemma same_host_rand: "same_host (w\<lparr>rand_count := n\<rparr>) w"
  by (simp add: same_host_def)

lemma same_host_executeJq_begin: "same_host (fst (executeJq_begin w s c)) w"
proof -
  let ?w0 = "w\<lparr>rand_count := rand_count w + 2\<rparr>"
  let ?a = "new_tmpFile w"
  let ?b = "new_tmpFilter w"
  have w0: "same_host ?w0 w" by (rule same_host_rand)
  show ?thesis
  proof (cases "writeFileSync ?w0 ?a c")
    case (Inl e)
    then show ?thesis
      using same_host_trans [OF same_host_executeJq_finally w0]
      by (simp add: executeJq_begin_def Let_def)
  next
    case (Inr w1)
    note w1 = same_host_trans [OF same_host_writeFileSync [OF Inr] w0]
    show ?thesis
    proof (cases "writeFileSync w1 ?b (filterText w1)")
      case (Inl e)
      then show ?thesis
        using Inr same_host_trans [OF same_host_executeJq_finally w1]
        by (simp add: executeJq_begin_def Let_def)
    next
      case (Inr w2)
      then show ?thesis
        using \<open>writeFileSync ?w0 ?a c = Inr w1\<close>
          same_host_trans [OF same_host_writeFileSync [OF Inr] w1]
        by (simp add: executeJq_begin_def Let_def)
    qed
  qed
qed

lemma same_host_executeJq_end: "same_host (fst (executeJq_end w s p r)) w"
  by (simp add: executeJq_end_def same_host_executeJq_finally)

lemma same_host_runUpdate: "same_host (fst (runUpdate w s)) w"
proof (cases "read_input w (runUpdate_enter s)")
  case (Inl e)
  then show ?thesis
    by (auto simp: runUpdate.simps [of w s] runUpdate_finally_idle split: prod.splits
        dest!: runUpdate_apply_fields(1))
next
  case (Inr c)
  show ?thesis
  proof (cases "executeJq_begin w (runUpdate_enter s) c")
    case (Pair w1 x)
    have h: "same_host w1 w"
      using same_host_executeJq_begin [of w "runUpdate_enter s" c] Pair by simp
    show ?thesis
      using Inr Pair h
      by (cases x) (auto simp: runUpdate.simps [of w s] runUpdate_finally_idle split: prod.splits
        dest!: runUpdate_apply_fields(1))
  qed
qed

lemma same_host_runUpdate_finally: "same_host (fst (runUpdate_finally w s exn)) w"
  by (cases "needUpdate s") (simp_all add: runUpdate_finally_idle runUpdate_finally_pending same_host_runUpdate)



lemma same_host_runUpdate_resume: "same_host (fst (runUpdate_resume w s p r)) w"
proof -
  obtain w1 outcome where a: "executeJq_end w s p r = (w1, outcome)"
    by (cases "executeJq_end w s p r")
  obtain s1 exn where b: "runUpdate_apply w1 s outcome = (s1, exn)"
    by (cases "runUpdate_apply w1 s outcome")
  have "same_host w1 w"
    using same_host_executeJq_end [of w s p r] a by simp
  then show ?thesis
    using a b same_host_trans [OF same_host_runUpdate_finally]
    by (simp add: runUpdate_resume_def)
qed



section \<open>One invocation, step by step\<close>

lemma files_unlink_quietly:
  "files (unlink_quietly w p) q =
     (if q = p \<and> fs_fault w OpUnlink p = None then None else files w q)"
  by (simp add: unlink_quietly_def unlinkSync_def split: option.splits)

lemma files_executeJq_finally:
  "files (executeJq_finally w a b) q =
     (if q = b \<and> fs_fault w OpUnlink b = None then None
      else if q = a \<and> fs_fault w OpUnlink a = None then None
      else files w q)"
  using same_host_fields(2) [OF same_host_unlink_quietly [of w a]]
  by (simp add: executeJq_finally_def files_unlink_quietly)

lemma getWorkspaceRelativePath_host:
  "workspaceFolders w' = workspaceFolders w \<Longrightarrow> path_relative w' = path_relative w \<Longrightarrow>
   getWorkspaceRelativePath w' f = getWorkspaceRelativePath w f"
  by (simp add: getWorkspaceRelativePath_def split: option.splits)

lemma executeJq_catch_host:
  "workspaceFolders w' = workspaceFolders w \<Longrightarrow> path_relative w' = path_relative w \<Longrightarrow>
   filterFileName w' = filterFileName w \<Longrightarrow>
   executeJq_catch w' s a b e = executeJq_catch w s a b e"
  by (simp add: executeJq_catch_def rewrite_paths_def getWorkspaceRelativePath_host [of w' w])

lemma executeJq_begin_failed:
  assumes "executeJq_begin w s c = (w', Inl m)"
  shows "\<exists>w1. same_host w1 w \<and> w' = executeJq_finally w1 (new_tmpFile w) (new_tmpFilter w)"
proof -
  let ?w0 = "w\<lparr>rand_count := rand_count w + 2\<rparr>"
  show ?thesis
  proof (cases "writeFileSync ?w0 (new_tmpFile w) c")
    case (Inl e)
    with assms show ?thesis
      by (auto simp: executeJq_begin_def Let_def intro: same_host_rand)
  next
    case (Inr w1)
    note h = same_host_trans [OF same_host_writeFileSync [OF Inr] same_host_rand]
    from assms Inr show ?thesis
      by (auto simp: executeJq_begin_def Let_def split: sum.splits intro: h)
  qed
qed

lemma executeJq_begin_suspended:
  "executeJq_begin w s c = (w', Inr p) \<Longrightarrow>
   p_tmpFile p = new_tmpFile w \<and> p_tmpFilter p = new_tmpFilter w
   \<and> p_command p = jq_command (options s) (new_tmpFilter w) (new_tmpFile w)"
  by (auto simp: executeJq_begin_def Let_def split: sum.splits)

lemma executeJq_begin_unlink_faults:
  assumes "\<And>q. ff OpWrite q = fs_fault w OpWrite q"
  shows "snd (executeJq_begin (w\<lparr>fs_fault := ff\<rparr>) s c) = snd (executeJq_begin w s c)"
proof -
  let ?w0 = "w\<lparr>rand_count := rand_count w + 2\<rparr>"
  have n: "new_tmpFile (w\<lparr>fs_fault := ff\<rparr>) = new_tmpFile w"
    "new_tmpFilter (w\<lparr>fs_fault := ff\<rparr>) = new_tmpFilter w"
    by (simp_all add: new_tmpFile_def new_tmpFilter_def)
  show ?thesis
    by (auto simp: executeJq_begin_def writeFileSync_def Let_def n assms split: option.splits
        intro!: executeJq_catch_host)
qed


lemma read_input_runUpdate_enter [simp]: "read_input w (runUpdate_enter s) = read_input w s"
  by (simp add: read_input_def split: option.splits)

lemma runUpdate_previewState:
  "previewState (snd (runUpdate w s)) = previewState s
   \<or> ptype (previewState (snd (runUpdate w s))) = Error"
  by (cases rule: runUpdate_cases [of w s]) (auto dest: runUpdate_apply_fields)

lemma runUpdate_read_failure:
  assumes "read_input w s = Inl e"
  shows "previewState (snd (runUpdate w s)) = \<lparr>content = err_message e, ptype = Error\<rparr>"
    "inflight (snd (runUpdate w s)) = inflight s" "\<not> updating (snd (runUpdate w s))"
proof -
  obtain s2 exn where a: "runUpdate_apply w (runUpdate_enter s) (Inl (err_message e)) = (s2, exn)"
    by (cases "runUpdate_apply w (runUpdate_enter s) (Inl (err_message e))")
  have r: "read_input w (runUpdate_enter s) = Inl e \<and> err_message e = err_message e \<and> w = w
         \<or> (\<exists>c. read_input w (runUpdate_enter s) = Inr c
                \<and> executeJq_begin w (runUpdate_enter s) c = (w, Inl (err_message e)))"
    using assms by simp
  note f = runUpdate_fails [OF r a]
  show "previewState (snd (runUpdate w s)) = \<lparr>content = err_message e, ptype = Error\<rparr>"
    "inflight (snd (runUpdate w s)) = inflight s" "\<not> updating (snd (runUpdate w s))"
    using runUpdate_apply_fields(3,9) [OF a] by (simp_all add: f)
qed

lemma runUpdate_write_failure:
  assumes "read_input w s = Inr c" "executeJq_begin w (runUpdate_enter s) c = (w1, Inl m)"
  shows "previewState (snd (runUpdate w s)) = \<lparr>content = m, ptype = Error\<rparr>"
    "inflight (snd (runUpdate w s)) = inflight s" "\<not> updating (snd (runUpdate w s))"
proof -
  obtain s2 exn where a: "runUpdate_apply w1 (runUpdate_enter s) (Inl m) = (s2, exn)"
    by (cases "runUpdate_apply w1 (runUpdate_enter s) (Inl m)")
  have r: "read_input w (runUpdate_enter s) = Inr c" using assms(1) by simp
  then have r2: "\<exists>c. read_input w (runUpdate_enter s) = Inr c
                \<and> executeJq_begin w (runUpdate_enter s) c = (w1, Inl m)"
    using assms(2) by blast
  note f = runUpdate_fails [OF disjI2 [OF r2] a]
  show "previewState (snd (runUpdate w s)) = \<lparr>content = m, ptype = Error\<rparr>"
    "inflight (snd (runUpdate w s)) = inflight s" "\<not> updating (snd (runUpdate w s))"
    using runUpdate_apply_fields(3,9) [OF a] by (simp_all add: f)
qed

lemma runUpdate_escaped:
  "escaped (snd (runUpdate w s)) = escaped s
   \<or> (disposed (panel s) \<and> html_setter_throws w
       \<and> escaped (snd (runUpdate w s)) = escaped s @ [''Webview is disposed''])"
proof (cases rule: runUpdate_cases [of w s])
  case (suspended w1 p)
  then show ?thesis by simp
next
  case (ended w1 m s2 exn)
  have h: "html_setter_throws w1 = html_setter_throws w"
    using same_host_fields(6) [OF same_host_runUpdate [of w s]] ended(2) by simp
  show ?thesis
    using runUpdate_apply_fields(12) [OF ended(1)] h by (auto simp: ended(2))
qed

lemma runUpdate_resume_idle:
  assumes "\<not> needUpdate s" "executeJq_end w s p r = (w1, outcome)"
    "runUpdate_apply w1 s outcome = (s1, exn)"
  shows "runUpdate_resume w s p r =
     (w1, (updateLoadingIndicatorState (s1\<lparr>updating := False\<rparr>))
            \<lparr>escaped := escaped s @ (case exn of None \<Rightarrow> [] | Some m \<Rightarrow> [m])\<rparr>)"
  using assms runUpdate_apply_fields(1,10) [OF assms(3)]
  by (simp add: runUpdate_resume_def runUpdate_finally_idle)

lemma runUpdate_resume_previewState:
  assumes "executeJq_end w s p r = (w1, outcome)"
  shows "previewState (snd (runUpdate_resume w s p r)) =
           (case outcome of Inl message \<Rightarrow> \<lparr>content = message, ptype = Error\<rparr>
                          | Inr output \<Rightarrow> \<lparr>content = output, ptype = Result\<rparr>)
       \<or> (needUpdate s \<and> ptype (previewState (snd (runUpdate_resume w s p r))) = Error)"
proof -
  obtain s1 exn where b: "runUpdate_apply w1 s outcome = (s1, exn)"
    by (cases "runUpdate_apply w1 s outcome")
  note f = runUpdate_apply_fields [OF b]
  show ?thesis
  proof (cases "needUpdate s")
    case False
    then show ?thesis
      using f(3) by (simp add: runUpdate_resume_idle [OF False assms b])
  next
    case True
    then have n: "needUpdate s1" using f(1) by simp
    show ?thesis
      using True assms b f(3) runUpdate_previewState [of w1 "s1\<lparr>updating := False\<rparr>"]
      by (auto simp: runUpdate_resume_def runUpdate_finally_pending [OF n])
  qed
qed

lemma trim_decompose:
  "\<exists>a b. out = a @ trim out @ b \<and> (\<forall>c \<in> set a. isWhiteSpace c) \<and> (\<forall>c \<in> set b. isWhiteSpace c)"
proof -
  let ?a = "takeWhile isWhiteSpace out"
  let ?m = "dropWhile isWhiteSpace out"
  let ?b = "rev (takeWhile isWhiteSpace (rev ?m))"
  have 1: "out = ?a @ ?m" by simp
  have "rev ?m = takeWhile isWhiteSpace (rev ?m) @ dropWhile isWhiteSpace (rev ?m)" by simp
  then have "?m = rev (dropWhile isWhiteSpace (rev ?m)) @ ?b"
    by (metis rev_append rev_rev_ident)
  then have 2: "?m = trim out @ ?b" by (simp add: trim_def)
  have 3: "\<forall>c \<in> set ?a. isWhiteSpace c" by (meson set_takeWhileD)
  have 4: "\<forall>c \<in> set ?b. isWhiteSpace c" by (metis set_rev set_takeWhileD)
  from 1 2 have "out = ?a @ trim out @ ?b" by simp
  with 3 4 show ?thesis by blast
qed

lemma trim_ends:
  assumes "trim out \<noteq> []"
  shows "\<not> isWhiteSpace (hd (trim out))" "\<not> isWhiteSpace (last (trim out))"
proof -
  let ?m = "dropWhile isWhiteSpace out"
  let ?r = "dropWhile isWhiteSpace (rev ?m)"
  have t: "trim out = rev ?r" by (simp add: trim_def)
  with assms have r: "?r \<noteq> []" by simp
  then have "\<not> isWhiteSpace (hd ?r)" by (rule hd_dropWhile)
  then show "\<not> isWhiteSpace (last (trim out))"
    using r by (simp add: t last_rev)
  have m: "?m \<noteq> []"
  proof
    assume a: "?m = []"
    show False using r unfolding a by simp
  qed
  then have h: "\<not> isWhiteSpace (hd ?m)" by (rule hd_dropWhile)
  obtain b where "?m = trim out @ b"
    by (metis append_take_drop_id dropWhile_eq_drop rev_append rev_rev_ident t takeWhile_dropWhile_id)
  with assms have "hd ?m = hd (trim out)" by (metis hd_append2)
  with h show "\<not> isWhiteSpace (hd (trim out))" by simp
qed


lemma filenameDisplay_host:
  assumes "workspaceFolders w' = workspaceFolders w" "path_relative w' = path_relative w"
    "path_basename w' = path_basename w" "path_dirname w' = path_dirname w"
    "path_sep w' = path_sep w"
  shows "filenameDisplay w' p = filenameDisplay w p"
  using assms by (simp add: filenameDisplay_def Let_def split: option.splits)

lemma getWebviewContent_cong:
  assumes "inputFile s' = inputFile s" "options s' = options s" "previewState s' = previewState s"
    "workspaceFolders w' = workspaceFolders w" "path_relative w' = path_relative w"
    "path_basename w' = path_basename w" "path_dirname w' = path_dirname w"
    "path_sep w' = path_sep w" "uri_fsPath w' = uri_fsPath w"
  shows "getWebviewContent w' s' = getWebviewContent w s"
  using assms filenameDisplay_host [OF assms(4-8)]
  by (simp add: getWebviewContent_def previewContent_def inputFileDisplay_def
        highlightedContent_def resultActions_def)

lemma runUpdate_resume_late:
  assumes "disposed (panel s)" "\<not> needUpdate s"
  shows "previewState (snd (runUpdate_resume w s p (Exited out))) = \<lparr>content = trim out, ptype = Result\<rparr>"
    "html_setter_throws w \<Longrightarrow>
       escaped (snd (runUpdate_resume w s p (Exited out))) = escaped s @ [''Webview is disposed'']"
    "\<not> html_setter_throws w \<Longrightarrow>
       html (panel (snd (runUpdate_resume w s p (Exited out))))
         = getWebviewContent w (s\<lparr>previewState := \<lparr>content = trim out, ptype = Result\<rparr>\<rparr>)"
    "\<not> html_setter_throws w \<Longrightarrow>
       escaped (snd (runUpdate_resume w s p (Exited out))) = escaped s"
proof -
  let ?w1 = "executeJq_finally w (p_tmpFile p) (p_tmpFilter p)"
  let ?s' = "s\<lparr>previewState := \<lparr>content = trim out, ptype = Result\<rparr>\<rparr>"
  have e: "executeJq_end w s p (Exited out) = (?w1, Inr (trim out))"
    by (simp add: executeJq_end_def)
  note h = same_host_fields [OF same_host_executeJq_finally [of w "p_tmpFile p" "p_tmpFilter p"]]
  obtain s1 exn where b: "runUpdate_apply ?w1 s (Inr (trim out)) = (s1, exn)"
    by (cases "runUpdate_apply ?w1 s (Inr (trim out))")
  note i = runUpdate_resume_idle [OF assms(2) e b]
  note f = runUpdate_apply_fields [OF b]
  show "previewState (snd (runUpdate_resume w s p (Exited out))) = \<lparr>content = trim out, ptype = Result\<rparr>"
    using f(3) by (simp add: i)
  show "escaped (snd (runUpdate_resume w s p (Exited out))) = escaped s @ [''Webview is disposed'']"
    if "html_setter_throws w"
    using f(12) that assms(1) h(6) by (simp add: i)
  have g: "getWebviewContent ?w1 ?s' = getWebviewContent w ?s'"
    by (rule getWebviewContent_cong) (simp_all add: h)
  show "html (panel (snd (runUpdate_resume w s p (Exited out)))) = getWebviewContent w ?s'"
    if "\<not> html_setter_throws w"
    using b that h(6) g
    by (auto simp: i runUpdate_apply_def setWebviewContent_def assignHtml_def)
  show "escaped (snd (runUpdate_resume w s p (Exited out))) = escaped s"
    if "\<not> html_setter_throws w"
    using f(12) that assms(1) h(6) by (simp add: i)
qed


text \<open>The page written when the evaluator ends with a result and the panel can be written.\<close>

lemma runUpdate_resume_shown:
  assumes "\<not> (disposed (panel s) \<and> html_setter_throws w)" "\<not> needUpdate s"
  shows "previewState (snd (runUpdate_resume w s p (Exited out))) = \<lparr>content = trim out, ptype = Result\<rparr>"
    "html (panel (snd (runUpdate_resume w s p (Exited out))))
       = getWebviewContent w (s\<lparr>previewState := \<lparr>content = trim out, ptype = Result\<rparr>\<rparr>)"
proof -
  let ?w1 = "executeJq_finally w (p_tmpFile p) (p_tmpFilter p)"
  let ?s' = "s\<lparr>previewState := \<lparr>content = trim out, ptype = Result\<rparr>\<rparr>"
  have e: "executeJq_end w s p (Exited out) = (?w1, Inr (trim out))"
    by (simp add: executeJq_end_def)
  note h = same_host_fields [OF same_host_executeJq_finally [of w "p_tmpFile p" "p_tmpFilter p"]]
  obtain s1 exn where b: "runUpdate_apply ?w1 s (Inr (trim out)) = (s1, exn)"
    by (cases "runUpdate_apply ?w1 s (Inr (trim out))")
  note i = runUpdate_resume_idle [OF assms(2) e b]
  note f = runUpdate_apply_fields [OF b]
  show "previewState (snd (runUpdate_resume w s p (Exited out))) = \<lparr>content = trim out, ptype = Result\<rparr>"
    using f(3) by (simp add: i)
  have g: "getWebviewContent ?w1 ?s' = getWebviewContent w ?s'"
    by (rule getWebviewContent_cong) (simp_all add: h)
  show "html (panel (snd (runUpdate_resume w s p (Exited out)))) = getWebviewContent w ?s'"
    using b assms(1) h(6) g
    by (auto simp: i runUpdate_apply_def setWebviewContent_def assignHtml_def)
qed

section \<open>The example session\<close>

lemma example_tmp_names:
  "new_tmpFile (example_world\<lparr>html_setter_throws := b\<rparr>) = p_tmpFile example_pending"
  "new_tmpFilter (example_world\<lparr>html_setter_throws := b\<rparr>) = p_tmpFilter example_pending"
  "new_tmpFile example_full_disk = p_tmpFile example_pending"
  "new_tmpFilter example_full_disk = p_tmpFilter example_pending"
  by (simp_all add: new_tmpFile_def new_tmpFilter_def example_world_def example_pending_def
        example_full_disk_def)

lemma example_begin_pending:
  assumes "options s = []"
  shows "executeJq_begin (example_world\<lparr>html_setter_throws := b\<rparr>) s c =
     (example_world\<lparr>html_setter_throws := b, rand_count := 2,
        files := (files example_world)
                   (p_tmpFile example_pending \<mapsto> c,
                    p_tmpFilter example_pending \<mapsto> filterText example_world)\<rparr>,
      Inr example_pending)"
  using assms
  by (simp add: executeJq_begin_def writeFileSync_def Let_def new_tmpFile_def new_tmpFilter_def
        example_world_def example_pending_def numeral_2_eq_2)


lemma example_config_open: "example_config = example_open True"
  by (simp add: example_config_def example_open_def example_world_def)

lemma example_open_state:
  "fst (example_open b) =
     example_world\<lparr>html_setter_throws := b, rand_count := 2,
        files := (files example_world)
                   (p_tmpFile example_pending \<mapsto> the (files example_world ''/ws/people.json''),
                    p_tmpFilter example_pending \<mapsto> filterText example_world)\<rparr>"
  "inflight (snd (example_open b)) = [example_pending]"
  "needUpdate (snd (example_open b)) = False"
  "escaped (snd (example_open b)) = []"
  "disposed (panel (snd (example_open b))) = False"
  "inputFile (snd (example_open b)) = ''/ws/people.json''"
  "options (snd (example_open b)) = []"
  "previewState (snd (example_open b)) = \<lparr>content = ''Loading...'', ptype = Placeholder\<rparr>"
  "runs (snd (example_open b)) = 1"
proof -
  let ?w = "example_world\<lparr>html_setter_throws := b\<rparr>"
  let ?s0 = "new_session ''/ws/people.json'' []"
  let ?s1 = "updateLoadingIndicatorState
               (?s0\<lparr>panel := (panel ?s0)\<lparr>html := getWebviewContent ?w ?s0\<rparr>\<rparr>)"
  let ?s2 = "updateLoadingIndicatorState (?s1\<lparr>needUpdate := True\<rparr>)"
  have a: "example_open b = runUpdate ?w ?s2"
    by (simp add: example_open_def updateWebview_def setWebviewContent_live requestUpdate_idle
          new_session_def)
  have r: "read_input ?w (runUpdate_enter ?s2) = Inr (the (files example_world ''/ws/people.json''))"
    by (simp add: read_input_def readFileSync_def example_world_def new_session_def)
  have o: "options (runUpdate_enter ?s2) = []"
    by (simp add: new_session_def)
  note s = runUpdate_suspends [OF r example_begin_pending [OF o]]
  show "fst (example_open b) =
     example_world\<lparr>html_setter_throws := b, rand_count := 2,
        files := (files example_world)
                   (p_tmpFile example_pending \<mapsto> the (files example_world ''/ws/people.json''),
                    p_tmpFilter example_pending \<mapsto> filterText example_world)\<rparr>"
    "inflight (snd (example_open b)) = [example_pending]"
    "needUpdate (snd (example_open b)) = False"
    "escaped (snd (example_open b)) = []"
    "disposed (panel (snd (example_open b))) = False"
    "inputFile (snd (example_open b)) = ''/ws/people.json''"
    "options (snd (example_open b)) = []"
    "previewState (snd (example_open b)) = \<lparr>content = ''Loading...'', ptype = Placeholder\<rparr>"
    "runs (snd (example_open b)) = 1"
    unfolding a s by (simp_all add: new_session_def)
qed


lemma example_displays:
  assumes "inputFile s = ''/ws/people.json''"
  shows "getWorkspaceRelativePath (fst (example_open b)) (inputFile s) = ''people.json''"
    "getWorkspaceRelativePath (fst (example_open b)) (filterFileName (fst (example_open b))) = ''filter.jq''"
  using assms
  by (simp_all add: example_open_state(1) getWorkspaceRelativePath_def example_world_def startsWith_def)

lemma example_rewrite_dash:
  assumes "inputFile s = ''/ws/people.json''"
  shows "rewrite_paths (fst (example_open b)) s (p_tmpFile example_pending) (p_tmpFilter example_pending)
           (error_text jq_missing_dash) = ''/bin/sh: 1: jq: not found\<newline>''"
  by (simp add: rewrite_paths_def example_displays [OF assms] error_text_def truthy_def jq_missing_dash_def
        example_pending_def replaceAll_def startsWith_def)




lemma example_full_disk_catch:
  assumes "inputFile s = ''/ws/people.json''" "same_host w example_full_disk"
  shows "executeJq_catch w s (p_tmpFile example_pending) (p_tmpFilter example_pending)
           (fs_error ''ENOSPC: no space left on device, write'')
         = ''ENOSPC: no space left on device, write''"
proof -
  note h = same_host_fields [OF assms(2)]
  have d: "getWorkspaceRelativePath w ''/ws/people.json'' = ''people.json''"
    "getWorkspaceRelativePath w (filterFileName w) = ''filter.jq''"
    by (simp_all add: getWorkspaceRelativePath_def h example_full_disk_def example_world_def
          startsWith_def)
  have e: "error_text (fs_error ''ENOSPC: no space left on device, write'')
      = ''ENOSPC: no space left on device, write''"
    by (simp add: error_text_def fs_error_def truthy_def)
  have r: "rewrite_paths w s (p_tmpFile example_pending) (p_tmpFilter example_pending)
             ''ENOSPC: no space left on device, write''
         = ''ENOSPC: no space left on device, write''"
    by (simp add: rewrite_paths_def assms(1) d example_pending_def replaceAll_def startsWith_def)
  show ?thesis
    by (simp add: executeJq_catch_def e r startsWith_def)
qed

lemma example_full_disk_begin:
  assumes "inputFile s = ''/ws/people.json''"
  shows "snd (executeJq_begin example_full_disk s c) = Inl ''ENOSPC: no space left on device, write''"
    "files (fst (executeJq_begin example_full_disk s c)) (p_tmpFile example_pending) = None"
    "files (fst (executeJq_begin example_full_disk s c)) (p_tmpFilter example_pending) = None"
proof -
  let ?w0 = "example_full_disk\<lparr>rand_count := Suc (Suc (rand_count example_full_disk))\<rparr>"
  let ?a = "p_tmpFile example_pending"
  let ?b = "p_tmpFilter example_pending"
  let ?w1 = "example_full_disk\<lparr>rand_count := Suc (Suc (rand_count example_full_disk)),
               files := (files example_full_disk)(?a \<mapsto> c)\<rparr>"
  have ab: "?a \<noteq> ?b" by (simp add: example_pending_def)
  have 1: "writeFileSync v ?a d = Inr (v\<lparr>files := (files v)(?a \<mapsto> d)\<rparr>)"
    if "fs_fault v = fs_fault example_full_disk" for v d
    using ab that by (simp add: writeFileSync_def example_full_disk_def)
  have 2: "writeFileSync v ?b d = Inl (fs_error ''ENOSPC: no space left on device, write'')"
    if "fs_fault v = fs_fault example_full_disk" for v d
    using that by (simp add: writeFileSync_def example_full_disk_def)
  have h: "same_host ?w1 example_full_disk"
    by (simp add: same_host_def)
  have b: "executeJq_begin example_full_disk s c =
      (executeJq_finally ?w1 ?a ?b,
       Inl (executeJq_catch ?w1 s ?a ?b (fs_error ''ENOSPC: no space left on device, write'')))"
    by (simp add: executeJq_begin_def Let_def example_tmp_names(3,4) 1 2)
  have u: "fs_fault example_full_disk OpUnlink q = None" for q
    by (simp add: example_full_disk_def)
  show "snd (executeJq_begin example_full_disk s c) = Inl ''ENOSPC: no space left on device, write''"
    by (simp add: b example_full_disk_catch [OF assms h])
  show "files (fst (executeJq_begin example_full_disk s c)) ?a = None"
    "files (fst (executeJq_begin example_full_disk s c)) ?b = None"
    using ab by (simp_all add: b files_executeJq_finally u)
qed

text \<open>The example session when its evaluator ends with the output \<open>out\<close>.\<close>

lemma example_result_shown:
  "previewState (snd (step (example_open b) (EvaluatorEnded 0 (Exited out))))
     = \<lparr>content = trim out, ptype = Result\<rparr>"
  "html (panel (snd (step (example_open b) (EvaluatorEnded 0 (Exited out)))))
     = getWebviewContent example_world
         ((new_session ''/ws/people.json'' [])\<lparr>previewState := \<lparr>content = trim out, ptype = Result\<rparr>\<rparr>)"
proof -
  let ?s = "(snd (example_open b))\<lparr>inflight := []\<rparr>"
  have ended: "step (example_open b) (EvaluatorEnded 0 (Exited out))
      = runUpdate_resume (fst (example_open b)) ?s example_pending (Exited out)"
    using example_open_state(2) [of b] by (cases "example_open b") simp
  have d: "\<not> (disposed (panel ?s) \<and> html_setter_throws (fst (example_open b)))" "\<not> needUpdate ?s"
    using example_open_state(3,5) [of b] by simp_all
  note r = runUpdate_resume_shown [OF d, where p = example_pending and out = out]
  show "previewState (snd (step (example_open b) (EvaluatorEnded 0 (Exited out))))
     = \<lparr>content = trim out, ptype = Result\<rparr>"
    using r(1) by (simp add: ended)
  have g: "getWebviewContent (fst (example_open b))
             (?s\<lparr>previewState := \<lparr>content = trim out, ptype = Result\<rparr>\<rparr>)
         = getWebviewContent example_world
             ((new_session ''/ws/people.json'' [])\<lparr>previewState := \<lparr>content = trim out, ptype = Result\<rparr>\<rparr>)"
    by (rule getWebviewContent_cong)
       (simp_all add: example_open_state new_session_def)
  show "html (panel (snd (step (example_open b) (EvaluatorEnded 0 (Exited out)))))
     = getWebviewContent example_world
         ((new_session ''/ws/people.json'' [])\<lparr>previewState := \<lparr>content = trim out, ptype = Result\<rparr>\<rparr>)"
    using r(2) g by (simp add: ended)
qed

lemma example_markup_fields:
  \<open>content (previewState example_markup) = ''"hljs-attr <img src=x onerror=alert(document.title)>"''\<close>
  "ptype (previewState example_markup) = Result"
  "options example_markup = []"
  "inputFile example_markup = ''/ws/people.json''"
  by (simp_all add: example_markup_def new_session_def)

lemma example_apostrophe_fields:
  \<open>content (previewState example_apostrophe) = ''"it's"''\<close>
  "ptype (previewState example_apostrophe) = Result"
  "options example_apostrophe = []"
  "inputFile example_apostrophe = ''/ws/people.json''"
  by (simp_all add: example_apostrophe_def new_session_def)

lemmas highlightJson_defs =
  highlightJson_def highlightLine_def replace_regex_def keyRE_def stringRE_def numberRE_def
  booleanRE_def nullRE_def quoted_def Opt_def Plus_def atWordBoundary_def isDigit_def
  isWordChar_def isWhiteSpace_def escapeHtml_def escapeChar_def startsWith_def

text \<open>The tinting of the two example results, and of a small object.\<close>

lemma highlightJson_apostrophe:
  \<open>highlightJson ''"it's"''
     = ''<span class="hljs-string">&quot;it&#<span class="hljs-number">039</span>;s&quot;</span>''\<close>
  by (simp add: highlightJson_defs)

lemma highlightJson_markup:
  \<open>highlightJson ''"hljs-attr <img src=x onerror=alert(document.title)>"''
     = ''"hljs-attr <img src=x onerror=alert(document.title)>"''\<close>
  by (simp add: highlightJson_defs)

lemma highlightJson_object:
  \<open>highlightJson ''{"a": true}''
     = ''{<span class="hljs-attr">&quot;a&quot;</span>: <span class="hljs-boolean">true</span>}''\<close>
  by (simp add: highlightJson_defs)

section \<open>Requests that arrive during a call\<close>

lemma notifications_busy:
  assumes "updating (snd c)" "1 \<le> N"
  shows "fst (notifications N c) = fst c \<and> needUpdate (snd (notifications N c))
       \<and> updating (snd (notifications N c))
       \<and> inflight (snd (notifications N c)) = inflight (snd c)
       \<and> runs (snd (notifications N c)) = runs (snd c)
       \<and> disposed (panel (snd (notifications N c))) = disposed (panel (snd c))"
  using assms(2)
proof (induction N rule: nat_induct_at_least)
  case base
  then show ?case
    using assms(1) by (simp add: notifications_def requestUpdate_busy)
next
  case (Suc n)
  then show ?case
    by (simp add: notifications_def requestUpdate_busy)
qed

lemma runUpdate_resume_runs:
  "runs (snd (runUpdate_resume w s p r)) = runs s + (if needUpdate s then 1 else 0)"
proof -
  obtain w1 outcome where a: "executeJq_end w s p r = (w1, outcome)"
    by (cases "executeJq_end w s p r")
  obtain s1 exn where b: "runUpdate_apply w1 s outcome = (s1, exn)"
    by (cases "runUpdate_apply w1 s outcome")
  show ?thesis
    using a b runUpdate_apply_fields(1,8) [OF b]
    by (simp add: runUpdate_resume_def runUpdate_finally_runs)
qed

text \<open>
  Claim C1. In every state that a session reaches from the command, through any
  sequence of events, at most one call of \<^verbatim>\<open>runUpdate\<close> is suspended at its
  \<^verbatim>\<open>await\<close>. When a call is running and \<open>N \<ge> 1\<close> change notifications arrive
  (\<open>N\<close> calls of \<^verbatim>\<open>requestUpdate\<close>), none of them starts a call, and the end of
  the running call starts exactly one: the count of calls grows by one, whatever
  \<open>N\<close> is, and again at most one call is in flight.
\<close>

theorem single_flight_coalescing:
  assumes "openPreview w0 picked = Some c0"
  shows "length (inflight (snd (run c0 evs))) \<le> 1
       \<and> (inflight (snd (run c0 evs)) \<noteq> [] \<and> 1 \<le> N \<longrightarrow>
            runs (snd (notifications N (run c0 evs))) = runs (snd (run c0 evs))
          \<and> inflight (snd (notifications N (run c0 evs))) = inflight (snd (run c0 evs))
          \<and> runs (snd (step (notifications N (run c0 evs)) (EvaluatorEnded 0 r)))
              = runs (snd (run c0 evs)) + 1
          \<and> length (inflight (snd (step (notifications N (run c0 evs)) (EvaluatorEnded 0 r)))) \<le> 1)"
proof -
  let ?c = "run c0 evs"
  have inv: "single_flight (snd ?c)"
    using assms by (simp add: openPreview_single_flight run_single_flight)
  then have one: "length (inflight (snd ?c)) \<le> 1"
    by (simp add: single_flight_def)
  have "runs (snd (notifications N ?c)) = runs (snd ?c)
      \<and> inflight (snd (notifications N ?c)) = inflight (snd ?c)
      \<and> runs (snd (step (notifications N ?c) (EvaluatorEnded 0 r))) = runs (snd ?c) + 1
      \<and> length (inflight (snd (step (notifications N ?c) (EvaluatorEnded 0 r)))) \<le> 1"
    if run: "inflight (snd ?c) \<noteq> []" and n: "1 \<le> N"
  proof -
    have u: "updating (snd ?c)"
      using inv run by (auto simp: single_flight_def)
    note b = notifications_busy [OF u n]
    obtain w1 s1 where c1: "notifications N ?c = (w1, s1)"
      by (cases "notifications N ?c")
    have s1: "needUpdate s1" "inflight s1 = inflight (snd ?c)" "runs s1 = runs (snd ?c)"
      using b c1 by simp_all
    have len: "length (inflight s1) = 1"
      using s1(2) one run by (cases "inflight (snd ?c)") simp_all
    then have emp: "take 0 (inflight s1) @ drop (Suc 0) (inflight s1) = []"
      by simp
    have A: "runs (snd (step (notifications N ?c) (EvaluatorEnded 0 r))) = runs (snd ?c) + 1"
      unfolding c1 using len s1 by (simp add: runUpdate_resume_runs)
    have B: "length (inflight (snd (step (notifications N ?c) (EvaluatorEnded 0 r)))) \<le> 1"
      unfolding c1
      using len emp runUpdate_resume_single_flight [of "s1\<lparr>inflight := []\<rparr>" w1 "inflight s1 ! 0" r]
      by (simp add: single_flight_def)
    show ?thesis
      using A B b by blast
  qed
  with one show ?thesis by blast
qed


theorem single_flight_coalescing_witness:
  "openPreview example_world (Some ''/ws/people.json'') = Some example_config
   \<and> inflight (snd (run example_config [])) \<noteq> []
   \<and> length (inflight (snd (run example_config []))) \<le> 1
   \<and> runs (snd (step (notifications 3 (run example_config [])) (EvaluatorEnded 0 (Exited ''{}''))))
       = runs (snd (run example_config [])) + 1"
proof -
  have o: "openPreview example_world (Some ''/ws/people.json'') = Some example_config"
    by (simp add: openPreview_def example_config_def example_world_def endsWith_def
          updateROption_def array_from_set_def)
  have r: "inflight (snd (run example_config [])) \<noteq> []"
    by (simp add: run_def example_config_open example_open_state(2))
  show ?thesis
    using single_flight_coalescing [OF o, of "[]" 3 "Exited ''{}''"] o r by simp
qed

section \<open>The raw-input policy\<close>

lemma set_array_from_set_aux:
  "set (foldl (\<lambda>acc x. if x \<in> set acc then acc else acc @ [x]) acc xs) = set acc \<union> set xs"
  by (induction xs arbitrary: acc) auto

lemma set_array_from_set [simp]: "set (array_from_set xs) = set xs"
  by (simp add: array_from_set_def set_array_from_set_aux)

lemma array_from_set_aux_distinct:
  "distinct (acc @ xs) \<Longrightarrow>
   foldl (\<lambda>acc x. if x \<in> set acc then acc else acc @ [x]) acc xs = acc @ xs"
  by (induction xs arbitrary: acc) auto

lemma filter_array_from_set_aux:
  "filter P (foldl (\<lambda>acc x. if x \<in> set acc then acc else acc @ [x]) acc xs)
   = foldl (\<lambda>acc x. if x \<in> set acc then acc else acc @ [x]) (filter P acc) (filter P xs)"
  by (induction xs arbitrary: acc) auto

lemma filter_array_from_set: "filter P (array_from_set xs) = array_from_set (filter P xs)"
  by (simp add: array_from_set_def filter_array_from_set_aux)

lemma array_from_set_distinct: "distinct xs \<Longrightarrow> array_from_set xs = xs"
  using array_from_set_aux_distinct [of "[]" xs] by (simp add: array_from_set_def)

lemma endsWith_suffix: "endsWith s p \<longleftrightarrow> suffix p s"
proof
  assume "endsWith s p"
  then have "s = take (length s - length p) s @ p"
    by (metis append_take_drop_id endsWith_def)
  then show "suffix p s" by (metis suffixI)
next
  assume "suffix p s"
  then obtain q where "s = q @ p" by (auto simp: suffix_def)
  then show "endsWith s p" by (simp add: endsWith_def)
qed

lemma updateROption_flag:
  "(''-R'' \<in> set (updateROption f opts)) = (\<not> endsWith f ''.json'')"
  by (simp add: updateROption_def)

lemma updateROption_others:
  "set (updateROption f opts) - {''-R''} = set opts - {''-R''}"
  by (auto simp: updateROption_def)

lemma updateROption_order:
  "distinct opts \<Longrightarrow>
   filter (\<lambda>opt. opt \<noteq> ''-R'') (updateROption f opts) = filter (\<lambda>opt. opt \<noteq> ''-R'') opts"
  by (simp add: updateROption_def filter_array_from_set array_from_set_distinct)

lemma onDidReceiveMessage_setOptions:
  "msg_type msg = ''setOptions'' \<Longrightarrow>
   onDidReceiveMessage w s msg picked = updateWebview w (s\<lparr>options := msg_options msg\<rparr>)"
  by (simp add: onDidReceiveMessage_def)

lemma onDidReceiveMessage_chooseInput:
  "msg_type msg = ''chooseInput'' \<Longrightarrow>
   onDidReceiveMessage w s msg (Some (c # cs)) =
     updateWebview w (s\<lparr>inputFile := c # cs, options := updateROption (c # cs) (options s)\<rparr>)"
  by (simp add: onDidReceiveMessage_def)


text \<open>The name of a file ends in \<^verbatim>\<open>.json\<close> exactly when its POSIX path does.\<close>

lemma json_name_iff_json_path:
  "endsWith (posix_basename p) ''.json'' \<longleftrightarrow> endsWith p ''.json''"
proof
  assume "endsWith (posix_basename p) ''.json''"
  then have "suffix ''.json'' (posix_basename p)" by (simp add: endsWith_suffix)
  moreover have "suffix (posix_basename p) p"
    unfolding posix_basename_def suffix_to_prefix
    by (simp add: takeWhile_is_prefix)
  ultimately show "endsWith p ''.json''"
    using suffix_order.trans by (auto simp: endsWith_suffix)
next
  assume "endsWith p ''.json''"
  then obtain q where p: "p = q @ ''.json''"
    by (auto simp: endsWith_suffix suffix_def)
  have "posix_basename p = posix_basename q @ ''.json''"
    by (simp add: p posix_basename_def)
  then show "endsWith (posix_basename p) ''.json''"
    unfolding endsWith_suffix by (metis suffixI)
qed

text \<open>
  Claim C3. After the input file is set, by the command or by a \<^verbatim>\<open>chooseInput\<close>
  message whose picker returns a path, the options are \<open>updateROption\<close> of that
  path: \<^verbatim>\<open>-R\<close> is among them exactly when the path does not end in \<^verbatim>\<open>.json\<close>, and
  every other flag is among them exactly when it was before (in the same order, when the
  flags were distinct). A \<^verbatim>\<open>setOptions\<close> message installs the options it carries as
  they are. The source tests the path of the input file, which ends in \<^verbatim>\<open>.json\<close>
  exactly when the name of the file does.
\<close>

theorem raw_input_policy:
  "(''-R'' \<in> set (updateROption f opts) \<longleftrightarrow> \<not> endsWith f ''.json'')
   \<and> (endsWith f ''.json'' \<longleftrightarrow> suffix ''.json'' f)
   \<and> set (updateROption f opts) - {''-R''} = set opts - {''-R''}
   \<and> (distinct opts \<longrightarrow>
        filter (\<lambda>opt. opt \<noteq> ''-R'') (updateROption f opts) = filter (\<lambda>opt. opt \<noteq> ''-R'') opts)
   \<and> inputFile (snd (onDidReceiveMessage w s
                        \<lparr>msg_type = ''chooseInput'', msg_options = mo, msg_content = mc\<rparr>
                        (Some (c # cs)))) = c # cs
   \<and> options (snd (onDidReceiveMessage w s
                      \<lparr>msg_type = ''chooseInput'', msg_options = mo, msg_content = mc\<rparr>
                      (Some (c # cs)))) = updateROption (c # cs) (options s)
   \<and> options (snd (onDidReceiveMessage w s
                      \<lparr>msg_type = ''setOptions'', msg_options = mo, msg_content = mc\<rparr>
                      picked)) = mo
   \<and> (openPreview w (Some f) = Some c0 \<longrightarrow>
        inputFile (snd c0) = f \<and> options (snd c0) = updateROption f [])"
proof -
  have "inputFile (snd c0) = f \<and> options (snd c0) = updateROption f []"
    if "openPreview w (Some f) = Some c0"
    using that by (auto simp: openPreview_def new_session_def split: if_splits)
  then show ?thesis
    by (simp add: updateROption_flag updateROption_others updateROption_order endsWith_suffix
          onDidReceiveMessage_setOptions onDidReceiveMessage_chooseInput)
qed


theorem raw_input_policy_witness:
  "updateROption ''notes.txt'' [''-c'', ''-r''] = [''-c'', ''-r'', ''-R'']
   \<and> updateROption ''data.json'' [''-c'', ''-R'', ''-r''] = [''-c'', ''-r'']
   \<and> distinct [''-c'', ''-r'']
   \<and> filter (\<lambda>opt. opt \<noteq> ''-R'') (updateROption ''notes.txt'' [''-c'', ''-r'']) = [''-c'', ''-r'']
   \<and> options (snd (onDidReceiveMessage example_world (snd example_config)
        \<lparr>msg_type = ''setOptions'', msg_options = [''-R''], msg_content = []\<rparr> None)) = [''-R'']
   \<and> openPreview example_world (Some ''/ws/people.json'') = Some example_config
   \<and> options (snd example_config) = []"
proof -
  have o: "openPreview example_world (Some ''/ws/people.json'') = Some example_config"
    by (simp add: openPreview_def example_config_def example_world_def endsWith_def
          updateROption_def array_from_set_def)
  have u: "updateROption ''/ws/people.json'' [] = []"
    by (simp add: updateROption_def endsWith_def)
  show ?thesis
    using raw_input_policy [where f = "''notes.txt''" and opts = "[''-c'', ''-r'']"
        and w = example_world and s = "snd example_config" and mo = "[''-R'']" and mc = "[]"
        and c = "CHR ''a''" and cs = "[]" and picked = None and ?c0.0 = example_config]
      raw_input_policy [where f = "''/ws/people.json''" and opts = "[]"
        and w = example_world and s = "snd example_config" and mo = "[''-R'']" and mc = "[]"
        and c = "CHR ''a''" and cs = "[]" and picked = None and ?c0.0 = example_config] o u
    by (simp add: updateROption_def array_from_set_def endsWith_def)
qed


section \<open>Escaping\<close>

lemma escapeChar_cases:
  "escapeChar c \<in> {''&amp;'', ''&lt;'', ''&gt;'', ''&quot;'', ''&#039;''}
   \<or> (escapeChar c = [c] \<and> c \<notin> {CHR ''&'', CHR ''<'', CHR ''>'', CHR 0x22, CHR 0x27})"
  by (simp add: escapeChar_def)

lemma escapeHtml_Cons: "escapeHtml (c # t) = escapeChar c @ escapeHtml t"
  by (simp add: escapeHtml_def)

lemma escapeHtml_append: "escapeHtml (a @ b) = escapeHtml a @ escapeHtml b"
  by (simp add: escapeHtml_def)

lemma escapeChar_no_specials:
  "set (escapeChar c) \<inter> {CHR ''<'', CHR ''>'', CHR 0x22, CHR 0x27} = {}"
  using escapeChar_cases [of c] by auto

lemma escapeHtml_no_specials:
  "set (escapeHtml t) \<inter> {CHR ''<'', CHR ''>'', CHR 0x22, CHR 0x27} = {}"
proof (induction t)
  case Nil
  then show ?case by (simp add: escapeHtml_def)
next
  case (Cons c t)
  then show ?case
    using escapeChar_no_specials [of c] by (auto simp: escapeHtml_Cons)
qed

lemma escapeChar_amp:
  assumes "i < length (escapeChar c)" "escapeChar c ! i = CHR ''&''"
  shows "i = 0 \<and> escapeChar c \<in> entities"
proof -
  consider "escapeChar c = ''&amp;''" | "escapeChar c = ''&lt;''" | "escapeChar c = ''&gt;''"
    | "escapeChar c = ''&quot;''" | "escapeChar c = ''&#039;''"
    | "escapeChar c = [c]" "c \<noteq> CHR ''&''"
    using escapeChar_cases [of c] by auto
  then show ?thesis
  proof cases
    case 1
    with assms show ?thesis by (auto simp: entities_def less_Suc_eq nth_Cons')
  next
    case 2
    with assms show ?thesis by (auto simp: entities_def less_Suc_eq nth_Cons')
  next
    case 3
    with assms show ?thesis by (auto simp: entities_def less_Suc_eq nth_Cons')
  next
    case 4
    with assms show ?thesis by (auto simp: entities_def less_Suc_eq nth_Cons')
  next
    case 5
    with assms show ?thesis by (auto simp: entities_def less_Suc_eq nth_Cons')
  next
    case 6
    with assms show ?thesis by simp
  qed
qed

lemma escapeHtml_amp:
  "i < length (escapeHtml t) \<Longrightarrow> escapeHtml t ! i = CHR ''&'' \<Longrightarrow>
   \<exists>e \<in> entities. prefix e (drop i (escapeHtml t))"
proof (induction t arbitrary: i)
  case Nil
  then show ?case by (simp add: escapeHtml_def)
next
  case (Cons c t)
  show ?case
  proof (cases "i < length (escapeChar c)")
    case True
    with Cons.prems have "escapeChar c ! i = CHR ''&''"
      by (simp add: escapeHtml_Cons nth_append)
    with True have "i = 0" "escapeChar c \<in> entities"
      using escapeChar_amp by blast+
    then show ?thesis
      by (auto simp: escapeHtml_Cons intro!: bexI [of _ "escapeChar c"])
  next
    case False
    let ?j = "i - length (escapeChar c)"
    from False Cons.prems have "?j < length (escapeHtml t)" "escapeHtml t ! ?j = CHR ''&''"
      by (auto simp: escapeHtml_Cons nth_append)
    then obtain e where "e \<in> entities" "prefix e (drop ?j (escapeHtml t))"
      using Cons.IH by blast
    with False show ?thesis
      by (auto simp: escapeHtml_Cons)
  qed
qed

lemma renderOptionSelection_catalog:
  "renderOptionSelection opts = renderOptionSelection (filter (\<lambda>opt. opt \<in> fst ` set allOptions) opts)"
proof -
  let ?f = "filter (\<lambda>opt. opt \<in> fst ` set allOptions) opts"
  have m: "fst opt \<in> set ?f \<longleftrightarrow> fst opt \<in> set opts" if "opt \<in> set allOptions" for opt
    using that by auto
  have 1: "filter (\<lambda>opt. fst opt \<in> set ?f) allOptions = filter (\<lambda>opt. fst opt \<in> set opts) allOptions"
    by (rule filter_cong) (use m in auto)
  have 2: "map (dropdown_item ?f) allOptions = map (dropdown_item opts) allOptions"
    by (rule map_cong) (use m in \<open>auto simp: dropdown_item_def\<close>)
  show ?thesis
    unfolding renderOptionSelection_def 1 2 ..
qed


text \<open>
  The name of the input, the directory shown beside it, and every body that is not a
  tinted result reach the page through \<open>escapeHtml\<close>.
\<close>

lemma escaped_texts:
  \<open>inputFileDisplay w s =
     ''<span class="jq-input-name">''
     @ escapeHtml (fst (filenameDisplay w (uri_fsPath w (inputFile s))))
     @ ''</span><span class="jq-input-desc"> ''
     @ escapeHtml (snd (filenameDisplay w (uri_fsPath w (inputFile s)))) @ ''</span>''\<close>
  \<open>''-r'' \<in> set (options s) \<or> ptype (previewState s) \<noteq> Result \<Longrightarrow>
   highlightedContent s = ''<pre>'' @ escapeHtml (content (previewState s)) @ ''</pre>''\<close>
  by (auto simp: inputFileDisplay_def highlightedContent_def split: prod.splits)

text \<open>
  Claim C7 does not hold of the code. A result is rendered through \<^verbatim>\<open>highlightJson\<close>
  when \<^verbatim>\<open>-r\<close> is not set, and \<^verbatim>\<open>highlightJson\<close> escapes only the text of the keys and
  strings it replaces: its second pass returns unchanged every match that contains
  \<^verbatim>\<open>hljs-attr\<close> (meant for the attribute of the tag the first pass wrote). The filter
  \<^verbatim>\<open>.\<close> on an input that is the JSON string below prints that string; it contains
  \<^verbatim>\<open>hljs-attr\<close>, so it reaches the page as it is, with the markup in it, where
  \<open>escapeHtml\<close> would have written entities. With \<^verbatim>\<open>-r\<close> set the same content is
  escaped.
\<close>

theorem result_markup_is_not_escaped:
  \<open>previewState (snd (step (example_open True) (EvaluatorEnded 0
        (Exited ''"hljs-attr <img src=x onerror=alert(document.title)>"\<newline>''))))
     = previewState example_markup
   \<and> html (panel (snd (step (example_open True) (EvaluatorEnded 0
        (Exited ''"hljs-attr <img src=x onerror=alert(document.title)>"\<newline>'')))))
     = getWebviewContent example_world example_markup
   \<and> getWebviewContent example_world example_markup
     = page_head @ preview_open @ inputFileDisplay example_world example_markup @ preview_choose
       @ renderOptionSelection [] @ preview_content_open @ resultActions example_markup
       @ preview_pane_open @ ''result'' @ preview_pane_class
       @ ''<pre class="jq-json-output">"hljs-attr <img src=x onerror=alert(document.title)>"</pre>''
       @ preview_close @ page_tail
   \<and> highlightJson (content (previewState example_markup)) = content (previewState example_markup)
   \<and> escapeHtml (content (previewState example_markup))
     = ''&quot;hljs-attr &lt;img src=x onerror=alert(document.title)&gt;&quot;''
   \<and> highlightedContent (example_markup\<lparr>options := [''-r'']\<rparr>)
     = ''<pre>&quot;hljs-attr &lt;img src=x onerror=alert(document.title)&gt;&quot;</pre>''\<close>
proof -
  have t: \<open>trim ''"hljs-attr <img src=x onerror=alert(document.title)>"\<newline>''
      = ''"hljs-attr <img src=x onerror=alert(document.title)>"''\<close>
    by (simp add: trim_def isWhiteSpace_def)
  have m: \<open>(new_session ''/ws/people.json'' [])
       \<lparr>previewState :=
          \<lparr>content = ''"hljs-attr <img src=x onerror=alert(document.title)>"'', ptype = Result\<rparr>\<rparr>
      = example_markup\<close>
    by (simp add: example_markup_def)
  have c1: \<open>previewState (snd (step (example_open True) (EvaluatorEnded 0
        (Exited ''"hljs-attr <img src=x onerror=alert(document.title)>"\<newline>''))))
     = previewState example_markup\<close>
    unfolding example_result_shown(1) t by (simp add: example_markup_def)
  have c2: \<open>html (panel (snd (step (example_open True) (EvaluatorEnded 0
        (Exited ''"hljs-attr <img src=x onerror=alert(document.title)>"\<newline>'')))))
     = getWebviewContent example_world example_markup\<close>
    unfolding example_result_shown(2) t m ..
  have e: \<open>escapeHtml (content (previewState example_markup))
      = ''&quot;hljs-attr &lt;img src=x onerror=alert(document.title)&gt;&quot;''\<close>
    by (simp add: example_markup_fields escapeHtml_def escapeChar_def)
  have h: \<open>highlightedContent example_markup
      = ''<pre class="jq-json-output">"hljs-attr <img src=x onerror=alert(document.title)>"</pre>''\<close>
    by (simp add: highlightedContent_def example_markup_fields highlightJson_markup)
  have p: \<open>getWebviewContent example_world example_markup
     = page_head @ preview_open @ inputFileDisplay example_world example_markup @ preview_choose
       @ renderOptionSelection [] @ preview_content_open @ resultActions example_markup
       @ preview_pane_open @ ''result'' @ preview_pane_class
       @ ''<pre class="jq-json-output">"hljs-attr <img src=x onerror=alert(document.title)>"</pre>''
       @ preview_close @ page_tail\<close>
    unfolding getWebviewContent_def previewContent_def h
    by (simp add: example_markup_fields)
  have c4: "highlightJson (content (previewState example_markup)) = content (previewState example_markup)"
    by (simp add: example_markup_fields(1) highlightJson_markup)
  have raw: \<open>highlightedContent (example_markup\<lparr>options := [''-r'']\<rparr>)
     = ''<pre>'' @ escapeHtml (content (previewState example_markup)) @ ''</pre>''\<close>
    by (simp add: highlightedContent_def)
  have c6: \<open>highlightedContent (example_markup\<lparr>options := [''-r'']\<rparr>)
     = ''<pre>&quot;hljs-attr &lt;img src=x onerror=alert(document.title)&gt;&quot;</pre>''\<close>
    unfolding raw e by simp
  show ?thesis
    by (intro conjI c1 c2 p c4 e c6)
qed

section \<open>Opening the result as a document\<close>






section \<open>Tinting\<close>

lemmas innerText_defs =
  innerText_def character_reference_def startsWith_def isLetter_def

text \<open>
  The passes of \<^verbatim>\<open>highlightLine\<close> run in the order key, string, number, boolean, null,
  and a result is tinted exactly when \<^verbatim>\<open>-r\<close> is not set.
\<close>

lemma tinting_when_not_raw:
  \<open>highlightedContent s =
     (if ''-r'' \<notin> set (options s) \<and> ptype (previewState s) = Result
      then ''<pre class="jq-json-output">''
           @ join ''\<newline>'' (map highlightLine (split_lines (content (previewState s)))) @ ''</pre>''
      else ''<pre>'' @ escapeHtml (content (previewState s)) @ ''</pre>'')\<close>
  by (simp add: highlightedContent_def highlightJson_def)

text \<open>
  Claim C9 does not hold of the code: the pass alters the text. The filter \<^verbatim>\<open>.\<close> on
  the JSON string \<^verbatim>\<open>"it's"\<close> prints that string. The pass for strings wraps it and
  escapes it, which writes the apostrophe as \<^verbatim>\<open>&#039;\<close>; the pass for numbers then runs
  over the markup written so far, finds the number \<^verbatim>\<open>039\<close> between \<^verbatim>\<open>#\<close> and \<^verbatim>\<open>;\<close> and
  wraps it in a tag. The character reference is cut in two, the panel shows
  \<^verbatim>\<open>"it&#039;s"\<close> where the result is \<^verbatim>\<open>"it's"\<close>, and that shown text is what the page
  copies and what it posts for the new document. With \<^verbatim>\<open>-r\<close> set the same content is
  shown as it is.
\<close>

theorem tinting_alters_shown_text:
  \<open>previewState (snd (step (example_open True) (EvaluatorEnded 0 (Exited ''"it's"\<newline>''))))
     = previewState example_apostrophe
   \<and> html (panel (snd (step (example_open True) (EvaluatorEnded 0 (Exited ''"it's"\<newline>'')))))
     = getWebviewContent example_world example_apostrophe
   \<and> content (previewState example_apostrophe) = ''"it's"''
   \<and> highlightedContent example_apostrophe
     = ''<pre class="jq-json-output"><span class="hljs-string">&quot;it&#<span class="hljs-number">039</span>;s&quot;</span></pre>''
   \<and> innerText (highlightedContent example_apostrophe) = ''"it&#039;s"''
   \<and> innerText (highlightedContent (example_apostrophe\<lparr>options := [''-r'']\<rparr>)) = ''"it's"''
   \<and> shown (fst (onDidReceiveMessage example_world example_apostrophe
         (jq_open_btn_click (innerText (highlightedContent example_apostrophe))) None))
     = [(\<lparr>doc_content = ''"it&#039;s"'', doc_language = Some ''json''\<rparr>, 1)]\<close>
proof -
  have t: \<open>trim ''"it's"\<newline>'' = ''"it's"''\<close>
    by (simp add: trim_def isWhiteSpace_def)
  have m: \<open>(new_session ''/ws/people.json'' [])
       \<lparr>previewState := \<lparr>content = ''"it's"'', ptype = Result\<rparr>\<rparr> = example_apostrophe\<close>
    by (simp add: example_apostrophe_def)
  have c1: \<open>previewState (snd (step (example_open True) (EvaluatorEnded 0 (Exited ''"it's"\<newline>''))))
     = previewState example_apostrophe\<close>
    unfolding example_result_shown(1) t by (simp add: example_apostrophe_def)
  have c2: \<open>html (panel (snd (step (example_open True) (EvaluatorEnded 0 (Exited ''"it's"\<newline>'')))))
     = getWebviewContent example_world example_apostrophe\<close>
    unfolding example_result_shown(2) t m ..
  have c4: \<open>highlightedContent example_apostrophe
     = ''<pre class="jq-json-output"><span class="hljs-string">&quot;it&#<span class="hljs-number">039</span>;s&quot;</span></pre>''\<close>
    by (simp add: highlightedContent_def example_apostrophe_fields highlightJson_apostrophe)
  have c5: \<open>innerText (highlightedContent example_apostrophe) = ''"it&#039;s"''\<close>
    unfolding c4 by (simp add: innerText_defs)
  have raw: \<open>highlightedContent (example_apostrophe\<lparr>options := [''-r'']\<rparr>)
     = ''<pre>&quot;it&#039;s&quot;</pre>''\<close>
    by (simp add: highlightedContent_def example_apostrophe_fields escapeHtml_def escapeChar_def)
  have c6: \<open>innerText (highlightedContent (example_apostrophe\<lparr>options := [''-r'']\<rparr>)) = ''"it's"''\<close>
    unfolding raw by (simp add: innerText_defs)
  have c7: \<open>shown (fst (onDidReceiveMessage example_world example_apostrophe
         (jq_open_btn_click (innerText (highlightedContent example_apostrophe))) None))
     = [(\<lparr>doc_content = ''"it&#039;s"'', doc_language = Some ''json''\<rparr>, 1)]\<close>
    unfolding c5
    by (simp add: onDidReceiveMessage_def jq_open_btn_click_def example_apostrophe_fields
          example_world_def targetColumn_def)
  show ?thesis
    by (intro conjI c1 c2 example_apostrophe_fields(1) c4 c5 c6 c7)
qed

section \<open>The temporary files\<close>

text \<open>
  Claim C6. When \<^verbatim>\<open>executeJq\<close> ends, with the output of the evaluator or with an
  error, both temporary files are unlinked: neither is on the disk afterwards unless the
  file system refuses to unlink it, and no other file is touched. The same holds when
  the call ends before the evaluator is started because a temporary file cannot be
  written. A failure to unlink is swallowed: the outcome of the call is the same
  whatever the file system answers to \<^verbatim>\<open>unlinkSync\<close>.
\<close>

theorem temporary_files_removed:
  "(fs_fault w OpUnlink (p_tmpFile p) = None \<longrightarrow>
      files (fst (executeJq_end w s p r)) (p_tmpFile p) = None)
   \<and> (fs_fault w OpUnlink (p_tmpFilter p) = None \<longrightarrow>
      files (fst (executeJq_end w s p r)) (p_tmpFilter p) = None)
   \<and> (q \<noteq> p_tmpFile p \<and> q \<noteq> p_tmpFilter p \<longrightarrow>
      files (fst (executeJq_end w s p r)) q = files w q)
   \<and> snd (executeJq_end (w\<lparr>fs_fault := ff\<rparr>) s p r) = snd (executeJq_end w s p r)
   \<and> (executeJq_begin w s c = (w', Inr p') \<longrightarrow>
      p_tmpFile p' = new_tmpFile w \<and> p_tmpFilter p' = new_tmpFilter w)
   \<and> (executeJq_begin w s c = (w', Inl m) \<longrightarrow>
      (fs_fault w OpUnlink (new_tmpFile w) = None \<longrightarrow> files w' (new_tmpFile w) = None)
    \<and> (fs_fault w OpUnlink (new_tmpFilter w) = None \<longrightarrow> files w' (new_tmpFilter w) = None))
   \<and> ((\<forall>x. ff OpWrite x = fs_fault w OpWrite x) \<longrightarrow>
      snd (executeJq_begin (w\<lparr>fs_fault := ff\<rparr>) s c) = snd (executeJq_begin w s c))"
proof -
  have failed: "(fs_fault w OpUnlink (new_tmpFile w) = None \<longrightarrow> files w' (new_tmpFile w) = None)
    \<and> (fs_fault w OpUnlink (new_tmpFilter w) = None \<longrightarrow> files w' (new_tmpFilter w) = None)"
    if a: "executeJq_begin w s c = (w', Inl m)"
  proof -
    obtain w1 where w1: "same_host w1 w"
        "w' = executeJq_finally w1 (new_tmpFile w) (new_tmpFilter w)"
      using executeJq_begin_failed [OF a] by blast
    show ?thesis
      by (simp add: w1(2) files_executeJq_finally same_host_fields(2) [OF w1(1)])
  qed
  have "snd (executeJq_end (w\<lparr>fs_fault := ff\<rparr>) s p r) = snd (executeJq_end w s p r)"
    by (auto simp: executeJq_end_def split: exec_result.splits intro!: executeJq_catch_host)
  then show ?thesis
    using failed executeJq_begin_suspended [of w s c w' p']
      executeJq_begin_unlink_faults [of ff w s c]
    by (simp add: executeJq_end_def files_executeJq_finally)
qed

theorem temporary_files_removed_witness:
  "fs_fault (fst example_config) OpUnlink (p_tmpFile example_pending) = None
   \<and> fs_fault (fst example_config) OpUnlink (p_tmpFilter example_pending) = None
   \<and> files (fst example_config) (p_tmpFile example_pending)
       = Some (the (files example_world ''/ws/people.json''))
   \<and> files (fst example_config) (p_tmpFilter example_pending) = Some (filterText example_world)
   \<and> files (fst (executeJq_end (fst example_config) (snd example_config) example_pending
                    (Failed jq_missing_dash))) (p_tmpFile example_pending) = None
   \<and> files (fst (executeJq_end (fst example_config) (snd example_config) example_pending
                    (Failed jq_missing_dash))) (p_tmpFilter example_pending) = None
   \<and> ''/ws/people.json'' \<noteq> p_tmpFile example_pending
   \<and> ''/ws/people.json'' \<noteq> p_tmpFilter example_pending
   \<and> files (fst (executeJq_end (fst example_config) (snd example_config) example_pending
                    (Failed jq_missing_dash))) ''/ws/people.json''
       = files example_world ''/ws/people.json''
   \<and> snd (executeJq_end ((fst example_config)\<lparr>fs_fault := (\<lambda>_ _. Some ''EPERM'')\<rparr>)
            (snd example_config) example_pending (Exited ''{}''))
       = snd (executeJq_end (fst example_config) (snd example_config) example_pending (Exited ''{}''))
   \<and> snd (executeJq_begin example_full_disk (new_session ''/ws/people.json'' []) ''[]'')
       = Inl ''ENOSPC: no space left on device, write''
   \<and> fs_fault example_full_disk OpUnlink (new_tmpFile example_full_disk) = None
   \<and> files (fst (executeJq_begin example_full_disk (new_session ''/ws/people.json'' []) ''[]''))
        (new_tmpFile example_full_disk) = None"
proof -
  let ?s0 = "new_session ''/ws/people.json'' []"
  have i: "inputFile ?s0 = ''/ws/people.json''" by (simp add: new_session_def)
  have b: "executeJq_begin example_full_disk ?s0 ''[]''
      = (fst (executeJq_begin example_full_disk ?s0 ''[]''),
         Inl ''ENOSPC: no space left on device, write'')"
    using example_full_disk_begin(1) [OF i, of "''[]''"]
    by (cases "executeJq_begin example_full_disk ?s0 ''[]''") simp
  have f: "fs_fault (fst example_config) = (\<lambda>_ _. None)"
    by (simp add: example_config_open example_open_state(1) example_world_def)
  have d: "fs_fault example_full_disk OpUnlink q = None" for q
    by (simp add: example_full_disk_def)
  note A = temporary_files_removed
            [where w = "fst example_config" and p = example_pending and s = "snd example_config"
               and r = "Failed jq_missing_dash" and q = "''/ws/people.json''"]
  note B = temporary_files_removed
            [where w = "fst example_config" and p = example_pending and s = "snd example_config"
               and r = "Exited ''{}''" and ff = "\<lambda>_ _. Some ''EPERM''"]
  note C = temporary_files_removed
            [where w = example_full_disk and s = ?s0 and c = "''[]''"
               and w' = "fst (executeJq_begin example_full_disk ?s0 ''[]'')"
               and m = "''ENOSPC: no space left on device, write''"]
  have q: "''/ws/people.json'' \<noteq> p_tmpFile example_pending"
    "''/ws/people.json'' \<noteq> p_tmpFilter example_pending"
    by (simp_all add: example_pending_def)
  have w: "files (fst example_config) (p_tmpFile example_pending)
       = Some (the (files example_world ''/ws/people.json''))"
    "files (fst example_config) (p_tmpFilter example_pending) = Some (filterText example_world)"
    "files (fst example_config) ''/ws/people.json'' = files example_world ''/ws/people.json''"
    by (simp_all add: example_config_open example_open_state(1) example_pending_def)
  have 1: "files (fst (executeJq_end (fst example_config) (snd example_config) example_pending
                    (Failed jq_missing_dash))) (p_tmpFile example_pending) = None"
    "files (fst (executeJq_end (fst example_config) (snd example_config) example_pending
                    (Failed jq_missing_dash))) (p_tmpFilter example_pending) = None"
    using A f by simp_all
  have 2: "files (fst (executeJq_end (fst example_config) (snd example_config) example_pending
                    (Failed jq_missing_dash))) ''/ws/people.json''
       = files example_world ''/ws/people.json''"
    using A q w(3) by simp
  have 3: "snd (executeJq_end ((fst example_config)\<lparr>fs_fault := (\<lambda>_ _. Some ''EPERM'')\<rparr>)
            (snd example_config) example_pending (Exited ''{}''))
       = snd (executeJq_end (fst example_config) (snd example_config) example_pending (Exited ''{}''))"
    using B by blast
  have 4: "files (fst (executeJq_begin example_full_disk ?s0 ''[]'')) (new_tmpFile example_full_disk) = None"
    using C b d by blast
  show ?thesis
    using 1 2 3 4 q w(1,2) f d example_full_disk_begin(1) [OF i, of "''[]''"] by simp
qed

section \<open>The content of a successful result\<close>

text \<open>
  Claim C10. The command line redirects the standard error of the evaluator to its
  standard output. When the evaluator ends with status 0, \<^verbatim>\<open>executeJq\<close> returns its captured
  output trimmed, and that text becomes the content of the result: the output is the
  trimmed text between two runs of white space, and the trimmed text neither starts nor
  ends with white space. When a request is pending, the call that follows at once may
  replace the result by the error of its own read or write.
\<close>

theorem result_is_trimmed_output:
  "endsWith (jq_command opts filterPath inputPath) '' 2>&1''
   \<and> snd (executeJq_end w s p (Exited out)) = Inr (trim out)
   \<and> (previewState (snd (runUpdate_resume w s p (Exited out)))
         = \<lparr>content = trim out, ptype = Result\<rparr>
      \<or> (needUpdate s \<and> ptype (previewState (snd (runUpdate_resume w s p (Exited out)))) = Error))
   \<and> (\<exists>a b. out = a @ trim out @ b \<and> (\<forall>c \<in> set a. isWhiteSpace c)
             \<and> (\<forall>c \<in> set b. isWhiteSpace c))
   \<and> (trim out \<noteq> [] \<longrightarrow> \<not> isWhiteSpace (hd (trim out)) \<and> \<not> isWhiteSpace (last (trim out)))"
proof -
  have e: "executeJq_end w s p (Exited out) = (fst (executeJq_end w s p (Exited out)), Inr (trim out))"
    by (simp add: executeJq_end_def)
  have c: "endsWith (jq_command opts filterPath inputPath) '' 2>&1''"
    unfolding endsWith_suffix jq_command_def
    by (intro suffix_appendI) simp
  show ?thesis
    using runUpdate_resume_previewState [OF e] trim_decompose [of out] trim_ends [of out] c
    by (simp add: executeJq_end_def)
qed

theorem result_is_trimmed_output_witness:
  "snd (executeJq_end (fst example_config) (snd example_config) example_pending
          (Exited '' {}\<newline>'')) = Inr ''{}''
   \<and> previewState (snd (run example_config [EvaluatorEnded 0 (Exited '' {}\<newline>'')]))
       = \<lparr>content = ''{}'', ptype = Result\<rparr>
   \<and> trim '' {}\<newline>'' \<noteq> []
   \<and> \<not> isWhiteSpace (hd (trim '' {}\<newline>''))
   \<and> \<not> isWhiteSpace (last (trim '' {}\<newline>''))"
proof -
  let ?s = "(snd (example_open True))\<lparr>inflight := []\<rparr>"
  have t: "trim '' {}\<newline>'' = ''{}''"
    by (simp add: trim_def isWhiteSpace_def)
  have r: "run example_config [EvaluatorEnded 0 (Exited '' {}\<newline>'')]
     = runUpdate_resume (fst (example_open True)) ?s example_pending (Exited '' {}\<newline>'')"
    by (cases "example_open True")
       (use example_open_state(2) [of True] in \<open>auto simp: run_def example_config_open\<close>)
  have n: "\<not> needUpdate ?s" by (simp add: example_open_state)
  note A = result_is_trimmed_output [where w = "fst example_config" and s = "snd example_config"
              and p = example_pending and out = "'' {}\<newline>''"]
  note B = result_is_trimmed_output [where w = "fst (example_open True)" and s = ?s
              and p = example_pending and out = "'' {}\<newline>''"]
  have 1: "snd (executeJq_end (fst example_config) (snd example_config) example_pending
          (Exited '' {}\<newline>'')) = Inr ''{}''"
    using A by (simp add: t)
  have 2: "previewState (snd (run example_config [EvaluatorEnded 0 (Exited '' {}\<newline>'')]))
       = \<lparr>content = ''{}'', ptype = Result\<rparr>"
    using B n by (simp add: t r)
  show ?thesis
    using 1 2 by (simp add: t isWhiteSpace_def)
qed

section \<open>Failures become error results\<close>

text \<open>
  A failure to read the input, a failure to write a temporary file and a failure of
  the evaluator are each caught and become a result of type \<^verbatim>\<open>error\<close> with the message
  of the error. While the panel is open (or on a host that accepts a write to a disposed
  panel) no exception leaves \<^verbatim>\<open>runUpdate\<close> or \<^verbatim>\<open>requestUpdate\<close>.
\<close>

lemma failures_caught_while_panel_open:
  "(read_input w s = Inl e \<longrightarrow>
      previewState (snd (runUpdate w s)) = \<lparr>content = err_message e, ptype = Error\<rparr>
    \<and> inflight (snd (runUpdate w s)) = inflight s)
   \<and> (read_input w s = Inr c \<and> executeJq_begin w (runUpdate_enter s) c = (w1, Inl m) \<longrightarrow>
      previewState (snd (runUpdate w s)) = \<lparr>content = m, ptype = Error\<rparr>
    \<and> inflight (snd (runUpdate w s)) = inflight s)
   \<and> snd (executeJq_end w s p (Failed e')) = Inl (executeJq_catch w s (p_tmpFile p) (p_tmpFilter p) e')
   \<and> ptype (previewState (snd (runUpdate_resume w s p (Failed e')))) = Error
   \<and> (\<not> needUpdate s \<longrightarrow>
      previewState (snd (runUpdate_resume w s p (Failed e')))
        = \<lparr>content = executeJq_catch w s (p_tmpFile p) (p_tmpFilter p) e', ptype = Error\<rparr>)
   \<and> (\<not> (disposed (panel s) \<and> html_setter_throws w) \<longrightarrow>
      escaped (snd (runUpdate w s)) = escaped s
    \<and> escaped (snd (requestUpdate w s)) = escaped s
    \<and> escaped (snd (runUpdate_resume w s p r)) = escaped s)"
proof -
  have e: "executeJq_end w s p (Failed e') =
      (fst (executeJq_end w s p (Failed e')),
       Inl (executeJq_catch w s (p_tmpFile p) (p_tmpFilter p) e'))"
    by (simp add: executeJq_end_def)
  have live: "escaped (snd (runUpdate w s)) = escaped s
    \<and> escaped (snd (requestUpdate w s)) = escaped s
    \<and> escaped (snd (runUpdate_resume w s p r)) = escaped s"
    if l: "\<not> (disposed (panel s) \<and> html_setter_throws w)"
  proof -
    have run: "escaped (snd (runUpdate v t)) = escaped t"
      if "\<not> (disposed (panel t) \<and> html_setter_throws v)" for v t
      using runUpdate_escaped [of v t] that by blast
    have req: "escaped (snd (requestUpdate w s)) = escaped s"
      using l by (cases "updating s") (simp_all add: requestUpdate_busy requestUpdate_idle run)
    obtain w2 outcome where a: "executeJq_end w s p r = (w2, outcome)"
      by (cases "executeJq_end w s p r")
    obtain s1 exn where b: "runUpdate_apply w2 s outcome = (s1, exn)"
      by (cases "runUpdate_apply w2 s outcome")
    have h: "html_setter_throws w2 = html_setter_throws w"
      using same_host_fields(6) [OF same_host_executeJq_end [of w s p r]] a by simp
    note f = runUpdate_apply_fields [OF b]
    have x: "exn = None" using f(12) l h by simp
    have res: "escaped (snd (runUpdate_resume w s p r)) = escaped s"
    proof (cases "needUpdate s")
      case False
      then show ?thesis by (simp add: runUpdate_resume_idle [OF False a b] x)
    next
      case True
      then have n: "needUpdate s1" using f(1) by simp
      have "escaped (snd (runUpdate w2 (s1\<lparr>updating := False\<rparr>))) = escaped s1"
        using run [of "s1\<lparr>updating := False\<rparr>" w2] f(11) l h by simp
      then show ?thesis
        using a b f(10) by (simp add: runUpdate_resume_def runUpdate_finally_pending [OF n] x)
    qed
    show ?thesis using run [OF l] req res by simp
  qed
  have err: "ptype (previewState (snd (runUpdate_resume w s p (Failed e')))) = Error"
    using runUpdate_resume_previewState [OF e] by auto
  have idle: "previewState (snd (runUpdate_resume w s p (Failed e')))
        = \<lparr>content = executeJq_catch w s (p_tmpFile p) (p_tmpFilter p) e', ptype = Error\<rparr>"
    if "\<not> needUpdate s"
    using runUpdate_resume_previewState [OF e] that by auto
  show ?thesis
    using runUpdate_read_failure(1,2) [of w s e] runUpdate_write_failure(1,2) [of w s c w1 m]
      live err idle
    by (simp add: executeJq_end_def)
qed


text \<open>The evaluator fails after the panel is closed, on a host that throws.\<close>

lemma runUpdate_resume_late_failure:
  assumes "disposed (panel s)" "\<not> needUpdate s" "html_setter_throws w"
  shows "previewState (snd (runUpdate_resume w s p (Failed e)))
           = \<lparr>content = executeJq_catch w s (p_tmpFile p) (p_tmpFilter p) e, ptype = Error\<rparr>"
    "escaped (snd (runUpdate_resume w s p (Failed e))) = escaped s @ [''Webview is disposed'']"
proof -
  let ?w1 = "executeJq_finally w (p_tmpFile p) (p_tmpFilter p)"
  let ?m = "executeJq_catch w s (p_tmpFile p) (p_tmpFilter p) e"
  have e: "executeJq_end w s p (Failed e) = (?w1, Inl ?m)"
    by (simp add: executeJq_end_def)
  note h = same_host_fields [OF same_host_executeJq_finally [of w "p_tmpFile p" "p_tmpFilter p"]]
  obtain s1 exn where b: "runUpdate_apply ?w1 s (Inl ?m) = (s1, exn)"
    by (cases "runUpdate_apply ?w1 s (Inl ?m)")
  note i = runUpdate_resume_idle [OF assms(2) e b]
  note f = runUpdate_apply_fields [OF b]
  show "previewState (snd (runUpdate_resume w s p (Failed e))) = \<lparr>content = ?m, ptype = Error\<rparr>"
    using f(3) by (simp add: i)
  show "escaped (snd (runUpdate_resume w s p (Failed e))) = escaped s @ [''Webview is disposed'']"
    using f(12) assms(1,3) h(6) by (simp add: i)
qed

text \<open>
  Claim C5 does not hold of the code. The failures are converted, but an exception can
  still leave the invocation. The example session waits for the evaluator; the panel is
  closed, which leaves the field \<^verbatim>\<open>panel\<close> set; then the evaluator fails (the shell
  finds no \<^verbatim>\<open>jq\<close>). \<^verbatim>\<open>executeJq\<close> throws, the inner \<^verbatim>\<open>catch\<close> of \<^verbatim>\<open>runUpdate\<close> makes
  the error the preview state, and the call of \<^verbatim>\<open>setWebviewContent\<close> that follows the
  inner \<^verbatim>\<open>try\<close> assigns the markup of the disposed panel: the host throws, no handler
  catches the exception, and it leaves \<^verbatim>\<open>runUpdate\<close>.
\<close>

theorem failure_on_closed_panel_escapes:
  "inflight (snd (example_open True)) = [example_pending]
   \<and> escaped (snd (example_open True)) = []
   \<and> disposed (panel (snd (step (example_open True) PanelClosed)))
   \<and> previewState (snd (run (example_open True)
                            [PanelClosed, EvaluatorEnded 0 (Failed jq_missing_dash)]))
       = \<lparr>content = ''/bin/sh: 1: jq: not found\<newline>'', ptype = Error\<rparr>
   \<and> escaped (snd (run (example_open True)
                       [PanelClosed, EvaluatorEnded 0 (Failed jq_missing_dash)]))
       = [''Webview is disposed'']"
proof -
  have closed: "step (example_open True) PanelClosed
      = (fst (example_open True), onDidDispose (snd (example_open True)))"
    by (cases "example_open True") (use example_open_state(5) [of True] in auto)
  let ?s = "(onDidDispose (snd (example_open True)))\<lparr>inflight := []\<rparr>"
  have ended: "run (example_open True) [PanelClosed, EvaluatorEnded 0 (Failed jq_missing_dash)]
      = runUpdate_resume (fst (example_open True)) ?s example_pending (Failed jq_missing_dash)"
    using example_open_state(2) [of True]
    by (simp add: run_def closed onDidDispose_def dispose_def)
  have d: "disposed (panel ?s)" "\<not> needUpdate ?s" "escaped ?s = []"
    "inputFile ?s = ''/ws/people.json''"
    using example_open_state(3,4,6) [of True] by (simp_all add: onDidDispose_def dispose_def)
  have th: "html_setter_throws (fst (example_open True))"
    by (simp add: example_open_state(1))
  have c: "executeJq_catch (fst (example_open True)) ?s (p_tmpFile example_pending)
             (p_tmpFilter example_pending) jq_missing_dash = ''/bin/sh: 1: jq: not found\<newline>''"
    by (simp add: executeJq_catch_def example_rewrite_dash [OF d(4)] startsWith_def)
  note l = runUpdate_resume_late_failure [OF d(1,2) th, where p = example_pending
             and e = jq_missing_dash]
  show ?thesis
    using l c d(3) example_open_state(2,4) [of True]
    by (simp add: ended closed onDidDispose_def dispose_def)
qed

section \<open>The installation hint\<close>





section \<open>A result that arrives after the panel is closed\<close>

text \<open>
  Claim C2 does not hold of the code. The example session waits for the evaluator; the
  panel is closed, which disposes the subscriptions and leaves the field \<^verbatim>\<open>panel\<close>
  set; then the evaluator ends. The result is applied, not discarded: it becomes the
  preview state, and the markup of the disposed panel is assigned. On a host that throws
  at this assignment the exception leaves \<^verbatim>\<open>runUpdate\<close> uncaught; on a host that does
  not, the markup of the panel is the page of the late result.
\<close>

theorem late_result_is_applied:
  "inflight (snd (example_open True)) = [example_pending]
   \<and> disposed (panel (snd (step (example_open True) PanelClosed)))
   \<and> disposables (snd (step (example_open True) PanelClosed)) = []
   \<and> previewState (snd (run (example_open True) [PanelClosed, EvaluatorEnded 0 (Exited ''42\<newline>'')]))
       = \<lparr>content = ''42'', ptype = Result\<rparr>
   \<and> escaped (snd (run (example_open True) [PanelClosed, EvaluatorEnded 0 (Exited ''42\<newline>'')]))
       = [''Webview is disposed'']
   \<and> previewState (snd (run (example_open False) [PanelClosed, EvaluatorEnded 0 (Exited ''42\<newline>'')]))
       = \<lparr>content = ''42'', ptype = Result\<rparr>
   \<and> html (panel (snd (run (example_open False) [PanelClosed, EvaluatorEnded 0 (Exited ''42\<newline>'')])))
       = getWebviewContent example_world
           ((new_session ''/ws/people.json'' [])\<lparr>previewState := \<lparr>content = ''42'', ptype = Result\<rparr>\<rparr>)"
proof -
  have t: "trim ''42\<newline>'' = ''42''"
    by (simp add: trim_def isWhiteSpace_def)
  have closed: "step (example_open b) PanelClosed = (fst (example_open b), onDidDispose (snd (example_open b)))" for b
    by (cases "example_open b") (use example_open_state(5) [of b] in auto)
  let ?s = "\<lambda>b. (onDidDispose (snd (example_open b)))\<lparr>inflight := []\<rparr>"
  have ended: "run (example_open b) [PanelClosed, EvaluatorEnded 0 (Exited ''42\<newline>'')]
      = runUpdate_resume (fst (example_open b)) (?s b) example_pending (Exited ''42\<newline>'')" for b
    using example_open_state(2) [of b]
    by (simp add: run_def closed onDidDispose_def dispose_def)
  have d: "disposed (panel (?s b))" "\<not> needUpdate (?s b)" "escaped (?s b) = []" for b
    using example_open_state(3,4) [of b] by (simp_all add: onDidDispose_def dispose_def)
  have th: "html_setter_throws (fst (example_open b)) = b" for b
    by (simp add: example_open_state(1))
  have p1: "previewState (snd (runUpdate_resume (fst (example_open b)) (?s b) example_pending
                (Exited ''42\<newline>''))) = \<lparr>content = ''42'', ptype = Result\<rparr>" for b
    using runUpdate_resume_late(1) [OF d(1,2)] t by simp
  have p2: "escaped (snd (runUpdate_resume (fst (example_open True)) (?s True) example_pending
                (Exited ''42\<newline>''))) = [''Webview is disposed'']"
    using runUpdate_resume_late(2) [OF d(1,2) [of True], where w = "fst (example_open True)"] th [of True] d(3)
    by simp
  have p3: "html (panel (snd (runUpdate_resume (fst (example_open False)) (?s False) example_pending
                (Exited ''42\<newline>''))))
         = getWebviewContent (fst (example_open False))
             ((?s False)\<lparr>previewState := \<lparr>content = ''42'', ptype = Result\<rparr>\<rparr>)"
    using runUpdate_resume_late(3) [OF d(1,2) [of False], where w = "fst (example_open False)"] th [of False] t
    by simp
  have g: "getWebviewContent (fst (example_open False))
             ((?s False)\<lparr>previewState := \<lparr>content = ''42'', ptype = Result\<rparr>\<rparr>)
         = getWebviewContent example_world
             ((new_session ''/ws/people.json'' [])\<lparr>previewState := \<lparr>content = ''42'', ptype = Result\<rparr>\<rparr>)"
    by (rule getWebviewContent_cong)
       (simp_all add: example_open_state onDidDispose_def dispose_def new_session_def)
  show ?thesis
    using p1 [of True] p1 [of False] p2 p3 g example_open_state(2) [of True]
    by (simp add: ended closed onDidDispose_def dispose_def)
qed

end
